theory Spec2Isabelle
  imports Complex_Main
begin

section \<open>Data model\<close>

text \<open>
  The development embeds \<^verbatim>\<open>src/integrations/plaid/plaidIntegration.ts\<close>:
  the paginated fetch (\<^verbatim>\<open>fetchPagedTransactions\<close>), the per-account pipeline
  (\<^verbatim>\<open>fetchAccount\<close>: normalisation and reconciliation) and the local callback
  server of \<^verbatim>\<open>addAccount\<close>.

  A JavaScript value of type \<^verbatim>\<open>T | null | undefined\<close> is a \<open>T option\<close>; \<open>None\<close> stands for
  both \<^verbatim>\<open>null\<close> and \<^verbatim>\<open>undefined\<close>. Numbers are only ever copied from the raw
  record into the normalised one, so \<open>real\<close> stands for the JavaScript number type; lengths,
  offsets and counts are natural numbers.
\<close>

type_synonym number = real

datatype error =
    TransportError string
  | AuthError string
  | TypeError string
  | RangeError string

text \<open>
  A settled promise. A computation that never settles is the value \<open>None\<close> of an option
  type around it.
\<close>

datatype ('a, 'e) settled = Resolved 'a | Rejected 'e

text \<open>
  \<^verbatim>\<open>IntegrationId\<close> is declared in \<^verbatim>\<open>types/integrations\<close>; only its member
  \<^verbatim>\<open>Plaid\<close> is used by the integration.
\<close>

datatype IntegrationId = Plaid | Google

text \<open>A \<^verbatim>\<open>Date\<close> object: a time value in milliseconds, or the invalid date.\<close>

datatype Date = Timestamp int | InvalidDate

record AccountConfig =
  id' :: string
  integration :: IntegrationId
  token :: string

subsection \<open>Raw provider records\<close>

text \<open>
  The records of the provider's client library, with the fields the integration reads.
  Every field the library declares nullable is an option; so are \<^verbatim>\<open>category\<close> and
  \<^verbatim>\<open>location\<close> of a transaction.
\<close>

record PlaidBalances =
  available :: "number option"
  current :: "number option"
  limit :: "number option"
  iso_currency_code :: "string option"
  unofficial_currency_code :: "string option"

record PlaidAccount =
  account_id :: string
  balances :: PlaidBalances
  mask :: "string option"
  name :: "string option"
  official_name :: "string option"
  subtype :: "string option"
  type :: "string option"

record PlaidLocation =
  address :: "string option"
  city :: "string option"
  region :: "string option"
  postal_code :: "string option"
  country :: "string option"
  lat :: "number option"
  lon :: "number option"

record PlaidTransaction =
  account_id :: string
  amount :: "number option"
  iso_currency_code :: "string option"
  unofficial_currency_code :: "string option"
  category :: "string list option"
  date :: string
  location :: "PlaidLocation option"
  name :: "string option"
  pending :: "bool option"
  transaction_id :: string
  transaction_type :: "string option"

record TransactionsRequestOptions =
  count :: nat
  offset :: nat

record TransactionsResponse =
  accounts :: "PlaidAccount list"
  transactions :: "PlaidTransaction list"
  total_transactions :: nat

subsection \<open>Normalised records\<close>

record Transaction =
  integration :: IntegrationId
  name :: "string option"
  date :: Date
  amount :: "number option"
  currency :: "string option"
  type :: "string option"
  accountId :: string
  transactionId :: string
  category :: string
  address :: "string option"
  city :: "string option"
  state :: "string option"
  postal_code :: "string option"
  country :: "string option"
  latitude :: "number option"
  longitude :: "number option"
  pending :: "bool option"
  institution :: "string option"
  account :: "string option"

record Account =
  integration :: IntegrationId
  accountId :: string
  mask :: "string option"
  institution :: "string option"
  account :: "string option"
  type :: "string option"
  current :: "number option"
  available :: "number option"
  limit :: "number option"
  currency :: "string option"
  transactions :: "Transaction list option"

subsection \<open>Logging\<close>

datatype log_level = Info | Warn | Error

datatype log_data =
    NoData
  | ErrorData error
  | BodyData "string option"
  | AccountsData "Account list"

record log_entry =
  level :: log_level
  message :: string
  data :: log_data

text \<open>
  Modelled from the spec: \<^verbatim>\<open>logInfo\<close>, \<^verbatim>\<open>logWarn\<close> and \<^verbatim>\<open>logError\<close> of
  \<^verbatim>\<open>lib/logging\<close> are not part of the sources at hand. The spec only says that they log;
  each appends one entry to the log and returns nothing.
\<close>

definition logInfo :: "string \<Rightarrow> log_data \<Rightarrow> log_entry list \<Rightarrow> log_entry list" where
  "logInfo msg d logs = logs @ [\<lparr>level = Info, message = msg, data = d\<rparr>]"

definition logWarn :: "string \<Rightarrow> log_data \<Rightarrow> log_entry list \<Rightarrow> log_entry list" where
  "logWarn msg d logs = logs @ [\<lparr>level = Warn, message = msg, data = d\<rparr>]"

definition logError :: "string \<Rightarrow> log_data \<Rightarrow> log_entry list \<Rightarrow> log_entry list" where
  "logError msg d logs = logs @ [\<lparr>level = Error, message = msg, data = d\<rparr>]"

subsection \<open>The environment of a fetch\<close>

text \<open>
  The provider and the date library are outside the repository. \<open>getTransactions\<close> is the
  provider's answer to a request (token, start, end, options): a response, or the error its
  promise rejects with. Within one fetch the offsets requested grow strictly, so no request
  is repeated and a function of the request describes any provider. \<open>format_valid\<close> is
  \<^verbatim>\<open>format(d, 'yyyy-MM-dd')\<close> on a valid date, \<open>now\<close> is \<^verbatim>\<open>new Date()\<close>.
\<close>

record env =
  getTransactions :: "string \<Rightarrow> string \<Rightarrow> string \<Rightarrow> TransactionsRequestOptions
                       \<Rightarrow> error + TransactionsResponse"
  format_valid :: "int \<Rightarrow> string"
  parseISO :: "string \<Rightarrow> Date"
  subMonths :: "Date \<Rightarrow> nat \<Rightarrow> Date"
  now :: Date

text \<open>\<^verbatim>\<open>format\<close> of the date library throws a RangeError on an invalid date.\<close>

definition format :: "env \<Rightarrow> Date \<Rightarrow> error + string" where
  "format e d = (case d of
       InvalidDate \<Rightarrow> Inl (RangeError ''Invalid time value'')
     | Timestamp t \<Rightarrow> Inr (format_valid e t))"

text \<open>\<^verbatim>\<open>a < b\<close> on two dates compares the time values; with an invalid date it is false.\<close>

definition date_lt :: "Date \<Rightarrow> Date \<Rightarrow> bool" where
  "date_lt a b = (case (a, b) of (Timestamp x, Timestamp y) \<Rightarrow> x < y | _ \<Rightarrow> False)"

section \<open>Paginated fetcher\<close>

text \<open>
  The \<^verbatim>\<open>while\<close> loop of \<^verbatim>\<open>fetchPagedTransactions\<close>. \<open>get\<close> is the provider at the
  fixed token and dates, \<open>options\<close> the (mutated) options object, \<open>resp\<close> the first
  response (the source's \<^verbatim>\<open>accounts\<close>), whose transaction list accumulates, and
  \<open>sent\<close> the requests issued so far. The loop compares against the total of the first
  response. It has no iteration bound: \<open>None\<close> is a loop that runs forever.
\<close>

partial_function (option) fetch_loop ::
  "(TransactionsRequestOptions \<Rightarrow> error + TransactionsResponse) \<Rightarrow> TransactionsRequestOptions
     \<Rightarrow> TransactionsResponse \<Rightarrow> TransactionsRequestOptions list
     \<Rightarrow> ((error + TransactionsResponse) \<times> TransactionsRequestOptions list) option"
where
  "fetch_loop get options resp sent =
     (if length (TransactionsResponse.transactions resp) < total_transactions resp then
        (case get (options\<lparr>offset := offset options + count options\<rparr>) of
           Inl e \<Rightarrow> Some (Inl e, sent @ [options\<lparr>offset := offset options + count options\<rparr>])
         | Inr next_page \<Rightarrow>
             fetch_loop get (options\<lparr>offset := offset options + count options\<rparr>)
               (resp\<lparr>TransactionsResponse.transactions :=
                  TransactionsResponse.transactions resp @ TransactionsResponse.transactions next_page\<rparr>)
               (sent @ [options\<lparr>offset := offset options + count options\<rparr>]))
      else Some (Inr resp, sent))"

definition fetchPagedTransactions ::
  "env \<Rightarrow> AccountConfig \<Rightarrow> Date \<Rightarrow> Date
     \<Rightarrow> ((TransactionsResponse, error) settled \<times> TransactionsRequestOptions list) option"
where
  "fetchPagedTransactions e accountConfig startDate endDate =
     (case format e startDate of
        Inl err \<Rightarrow> Some (Rejected err, [])
      | Inr start \<Rightarrow>
     (case format e endDate of
        Inl err \<Rightarrow> Some (Rejected err, [])
      | Inr end' \<Rightarrow>
     (case getTransactions e (token accountConfig) start end' \<lparr>count = 500, offset = 0\<rparr> of
        Inl err \<Rightarrow> Some (Rejected err, [\<lparr>count = 500, offset = 0\<rparr>])
      | Inr resp \<Rightarrow>
     (case fetch_loop (getTransactions e (token accountConfig) start end')
             \<lparr>count = 500, offset = 0\<rparr> resp [\<lparr>count = 500, offset = 0\<rparr>] of
        None \<Rightarrow> None
      | Some (Inl err, sent) \<Rightarrow> Some (Rejected err, sent)
      | Some (Inr r, sent) \<Rightarrow> Some (Resolved r, sent)))))"

section \<open>Record normaliser\<close>

text \<open>\<^verbatim>\<open>a || b\<close> on optional strings: \<open>a\<close> when it is truthy (present and non-empty).\<close>

definition truthy :: "string option \<Rightarrow> bool" where
  "truthy v = (case v of None \<Rightarrow> False | Some s \<Rightarrow> s \<noteq> [])"

definition or_else :: "string option \<Rightarrow> string option \<Rightarrow> string option" where
  "or_else a b = (if truthy a then a else b)"

text \<open>\<^verbatim>\<open>xs.join(sep)\<close>\<close>

fun join :: "string \<Rightarrow> string list \<Rightarrow> string" where
  "join sep [] = []"
| "join sep [x] = x"
| "join sep (x # y # ys) = x @ sep @ join sep (y # ys)"

definition toAccount :: "PlaidAccount \<Rightarrow> Account" where
  "toAccount raw =
     \<lparr> Account.integration = Plaid,
       accountId = PlaidAccount.account_id raw,
       mask = PlaidAccount.mask raw,
       institution = PlaidAccount.name raw,
       account = official_name raw,
       type = or_else (subtype raw) (PlaidAccount.type raw),
       current = PlaidBalances.current (balances raw),
       available = PlaidBalances.available (balances raw),
       limit = PlaidBalances.limit (balances raw),
       currency = or_else (PlaidBalances.iso_currency_code (balances raw))
                          (PlaidBalances.unofficial_currency_code (balances raw)),
       transactions = None \<rparr>"

text \<open>
  The fields of the object literal are evaluated in order: \<^verbatim>\<open>transaction.category.join\<close>
  throws on an absent category before \<^verbatim>\<open>transaction.location.address\<close> is read.
\<close>

definition toTransaction :: "env \<Rightarrow> PlaidTransaction \<Rightarrow> error + Transaction" where
  "toTransaction e transaction =
     (case PlaidTransaction.category transaction of
        None \<Rightarrow> Inl (TypeError ''Cannot read property join of null'')
      | Some cs \<Rightarrow>
     (case location transaction of
        None \<Rightarrow> Inl (TypeError ''Cannot read property address of null'')
      | Some loc \<Rightarrow>
          Inr \<lparr> Transaction.integration = Plaid,
                name = PlaidTransaction.name transaction,
                date = parseISO e (PlaidTransaction.date transaction),
                amount = PlaidTransaction.amount transaction,
                currency = or_else (PlaidTransaction.iso_currency_code transaction)
                                   (PlaidTransaction.unofficial_currency_code transaction),
                type = transaction_type transaction,
                accountId = PlaidTransaction.account_id transaction,
                transactionId = transaction_id transaction,
                category = join '' - '' cs,
                address = PlaidLocation.address loc,
                city = PlaidLocation.city loc,
                state = region loc,
                postal_code = PlaidLocation.postal_code loc,
                country = PlaidLocation.country loc,
                latitude = lat loc,
                longitude = lon loc,
                pending = PlaidTransaction.pending transaction,
                institution = None,
                account = None \<rparr>))"

text \<open>\<^verbatim>\<open>xs.map(f)\<close> where \<open>f\<close> may throw: the first exception ends the map.\<close>

fun map_throwing :: "('a \<Rightarrow> error + 'b) \<Rightarrow> 'a list \<Rightarrow> error + 'b list" where
  "map_throwing f [] = Inr []"
| "map_throwing f (x # xs) =
     (case f x of
        Inl err \<Rightarrow> Inl err
      | Inr y \<Rightarrow> (case map_throwing f xs of Inl err \<Rightarrow> Inl err | Inr ys \<Rightarrow> Inr (y # ys)))"

section \<open>Reconciler\<close>

definition attach :: "Account list \<Rightarrow> Transaction list \<Rightarrow> Account list" where
  "attach accts txs =
     map (\<lambda>a. a\<lparr>transactions :=
            Some (map (\<lambda>t. t\<lparr>Transaction.institution := Account.institution a,
                             Transaction.account := Account.account a\<rparr>)
                   (filter (\<lambda>t. Transaction.accountId t = Account.accountId a) txs))\<rparr>)
       accts"

section \<open>The per-account pipeline\<close>

fun digits :: "nat \<Rightarrow> string" where
  "digits n = (if n < 10 then [''0123456789'' ! n]
               else digits (n div 10) @ [''0123456789'' ! (n mod 10)])"

declare digits.simps [simp del]

text \<open>
  The callback of \<^verbatim>\<open>.then\<close>: normalise, reconcile, log. The source maps the accounts
  before the transactions; only the transactions can throw.
\<close>

definition on_data ::
  "env \<Rightarrow> TransactionsResponse \<Rightarrow> log_entry list \<Rightarrow> error + (Account list \<times> log_entry list)"
where
  "on_data e d logs =
     (case map_throwing (toTransaction e) (TransactionsResponse.transactions d) of
        Inl err \<Rightarrow> Inl err
      | Inr txs \<Rightarrow>
          (let accts = attach (map toAccount (accounts d)) txs in
           Inr (accts,
                logInfo (''Fetched '' @ digits (length (accounts d)) @ '' sub-accounts and ''
                           @ digits (total_transactions d) @ '' transactions.'')
                  (AccountsData accts) logs)))"

text \<open>The warning \<^verbatim>\<open>fetchAccount\<close> starts with.\<close>

definition warn_if_old :: "env \<Rightarrow> Date \<Rightarrow> log_entry list \<Rightarrow> log_entry list" where
  "warn_if_old e startDate logs0 =
     (if date_lt startDate (subMonths e (now e) 5)
      then logWarn ''Transaction history older than 6 months may not be available for some institutions.''
             NoData logs0
      else logs0)"

text \<open>
  \<^verbatim>\<open>fetchAccount\<close>, with the log threaded through. The result is the settled promise,
  the log and the requests sent to the provider; \<open>None\<close> when pagination never ends.
\<close>

definition fetchAccount ::
  "env \<Rightarrow> AccountConfig \<Rightarrow> Date \<Rightarrow> Date \<Rightarrow> log_entry list
     \<Rightarrow> ((Account list, error) settled \<times> log_entry list \<times> TransactionsRequestOptions list) option"
where
  "fetchAccount e accountConfig startDate endDate logs0 =
     (case fetchPagedTransactions e accountConfig startDate endDate of
        None \<Rightarrow> None
      | Some (Rejected err, sent) \<Rightarrow>
          Some (Resolved [],
                logError (''Error fetching account '' @ id' accountConfig @ ''.'') (ErrorData err)
                  (warn_if_old e startDate logs0),
                sent)
      | Some (Resolved d, sent) \<Rightarrow>
          (case on_data e d (warn_if_old e startDate logs0) of
             Inl err \<Rightarrow>
               Some (Resolved [],
                     logError (''Error fetching account '' @ id' accountConfig @ ''.'') (ErrorData err)
                       (warn_if_old e startDate logs0),
                     sent)
           | Inr (accts, logs') \<Rightarrow> Some (Resolved accts, logs', sent)))"

section \<open>Exchange server\<close>

record TokenResponse =
  access_token :: string
  item_id :: string

text \<open>The JSON body of a post to \<^verbatim>\<open>/get_access_token\<close>; \<open>None\<close> is \<^verbatim>\<open>undefined\<close>.\<close>

record body =
  public_token :: "string option"
  exit :: "bool option"
  error :: "string option"

text \<open>
  What reaches the server during one handshake: the requests of its HTTP surface, and the
  provider's call of the callback handed to \<^verbatim>\<open>exchangePublicToken\<close>, with its two
  arguments \<^verbatim>\<open>(error, tokenResponse)\<close>. The callback runs some time after the post that
  started the exchange, so it is an event of its own.
\<close>

datatype event =
    PostGetAccessToken body
  | ExchangeCallback "error option" "TokenResponse option"
  | PostAccounts
  | PostExchangeAccessToken string
  | PostDone
  | GetRoot

text \<open>
  The state of one handshake: the promise \<^verbatim>\<open>addAccount\<close> returned (\<open>None\<close> while
  pending; both settle values are the loggers' return value), the Credential Store
  (the stored \<^verbatim>\<open>config.accounts\<close>), \<^verbatim>\<open>this.config.accounts\<close>, the log, the
  listening socket, the public tokens sent for exchange, and exceptions no handler caught.
\<close>

record server =
  promise :: "(unit, unit) settled option"
  store :: "string \<rightharpoonup> AccountConfig"
  this_config :: "string \<rightharpoonup> AccountConfig"
  logs :: "log_entry list"
  listening :: bool
  stops :: nat
  close_calls :: nat
  exchanges :: "string list"
  uncaught :: "error list"

text \<open>\<^verbatim>\<open>resolve\<close> and \<^verbatim>\<open>reject\<close>: the first call settles the promise, later calls do nothing.\<close>

definition resolve :: "server \<Rightarrow> server" where
  "resolve s = (if promise s = None then s\<lparr>promise := Some (Resolved ())\<rparr> else s)"

definition reject :: "server \<Rightarrow> server" where
  "reject s = (if promise s = None then s\<lparr>promise := Some (Rejected ())\<rparr> else s)"

text \<open>
  Modelled from the spec: \<^verbatim>\<open>updateConfig\<close> of \<^verbatim>\<open>lib/config\<close> is not part of the
  sources at hand. It applies the transformer to the stored configuration and stores the
  result; a transformer that throws stores nothing. In \<^verbatim>\<open>savePublicToken\<close> the transformer
  reads \<^verbatim>\<open>tokenResponse.item_id\<close> first, which throws on an absent response.
\<close>

definition savePublicToken :: "TokenResponse option \<Rightarrow> server \<Rightarrow> error + server" where
  "savePublicToken tokenResponse s =
     (case tokenResponse of
        None \<Rightarrow> Inl (TypeError ''Cannot read property item_id of undefined'')
      | Some r \<Rightarrow>
          (let config = (store s)(item_id r \<mapsto>
                 \<lparr>id' = item_id r, integration = Plaid, token = access_token r\<rparr>)
           in Inr (s\<lparr>this_config := config, store := config\<rparr>)))"

text \<open>The callback given to \<^verbatim>\<open>exchangePublicToken\<close>. There is no \<^verbatim>\<open>return\<close> after \<^verbatim>\<open>reject\<close>.\<close>

definition exchange_callback :: "error option \<Rightarrow> TokenResponse option \<Rightarrow> server \<Rightarrow> server" where
  "exchange_callback err tokenResponse s =
     (let s1 = (case err of
                  None \<Rightarrow> s
                | Some e \<Rightarrow>
                    reject (s\<lparr>logs := logError ''Encountered error exchanging Plaid public token.''
                                        (ErrorData e) (logs s)\<rparr>))
      in case savePublicToken tokenResponse s1 of
           Inl ex \<Rightarrow> s1\<lparr>uncaught := uncaught s1 @ [ex]\<rparr>
         | Inr s2 \<Rightarrow> resolve (s2\<lparr>logs := logInfo ''Plaid access token saved.'' NoData (logs s2)\<rparr>))"

text \<open>The handler of \<^verbatim>\<open>POST /get_access_token\<close>.\<close>

definition get_access_token :: "body \<Rightarrow> server \<Rightarrow> server" where
  "get_access_token b s =
     (case public_token b of
        Some t \<Rightarrow> s\<lparr>exchanges := exchanges s @ [t]\<rparr>
      | None \<Rightarrow>
     (case exit b of
        Some _ \<Rightarrow> resolve (s\<lparr>logs := logInfo ''Plaid authentication cancelled.'' NoData (logs s)\<rparr>)
      | None \<Rightarrow>
          reject (s\<lparr>logs := logError ''Encountered error during authentication.''
                              (BodyData (error b)) (logs s)\<rparr>)))"

text \<open>\<^verbatim>\<open>server.close()\<close>: a listening server stops listening; otherwise nothing happens.\<close>

definition close :: "server \<Rightarrow> server" where
  "close s = (if listening s
              then s\<lparr>listening := False, stops := stops s + 1, close_calls := close_calls s + 1\<rparr>
              else s\<lparr>close_calls := close_calls s + 1\<rparr>)"

text \<open>
  One event. The account listing, the token refresh and the root page read the state and
  answer; they change nothing that is modelled here.
\<close>

fun step :: "event \<Rightarrow> server \<Rightarrow> server" where
  "step (PostGetAccessToken b) s = get_access_token b s"
| "step (ExchangeCallback err tokenResponse) s = exchange_callback err tokenResponse s"
| "step PostAccounts s = s"
| "step (PostExchangeAccessToken t) s = s"
| "step PostDone s = close s"
| "step GetRoot s = s"

fun run :: "event list \<Rightarrow> server \<Rightarrow> server" where
  "run [] s = s"
| "run (ev # evs) s = run evs (step ev s)"

text \<open>\<^verbatim>\<open>addAccount\<close>: a pending promise and a server listening on port 8000.\<close>

definition addAccount ::
  "(string \<rightharpoonup> AccountConfig) \<Rightarrow> (string \<rightharpoonup> AccountConfig) \<Rightarrow> log_entry list \<Rightarrow> server" where
  "addAccount stored config ls =
     \<lparr>promise = None, store = stored, this_config = config, logs = ls, listening = True,
      stops = 0, close_calls = 0, exchanges = [], uncaught = []\<rparr>"

section \<open>Notions used in the statements\<close>

text \<open>The transactions of the page the provider serves at an offset (page size 500).\<close>

definition page ::
  "(TransactionsRequestOptions \<Rightarrow> error + TransactionsResponse) \<Rightarrow> nat \<Rightarrow> PlaidTransaction list" where
  "page get k = (case get \<lparr>count = 500, offset = k\<rparr> of
                   Inl _ \<Rightarrow> []
                 | Inr r \<Rightarrow> TransactionsResponse.transactions r)"

text \<open>The number of pages that remain from offset \<open>k\<close> on: \<open>ceil ((tot - k) / 500)\<close>.\<close>

definition extra_requests :: "nat \<Rightarrow> nat \<Rightarrow> nat" where
  "extra_requests tot k = (tot - k + 499) div 500"

text \<open>The transaction list embedded in an account; empty before reconciliation.\<close>

definition txs_of :: "Account \<Rightarrow> Transaction list" where
  "txs_of a = (case Account.transactions a of None \<Rightarrow> [] | Some ts \<Rightarrow> ts)"

text \<open>A transaction as the Reconciler embeds it in an account.\<close>

definition embedded :: "Account \<Rightarrow> Transaction \<Rightarrow> Transaction" where
  "embedded a t = t\<lparr>Transaction.institution := Account.institution a,
                     Transaction.account := Account.account a\<rparr>"

text \<open>The credential a successful exchange stores.\<close>

definition credential :: "TokenResponse \<Rightarrow> AccountConfig" where
  "credential r = \<lparr>id' = item_id r, integration = Plaid, token = access_token r\<rparr>"

text \<open>
  The outcomes of an exchange, as the provider's client library reports them: it calls back
  with a response and no error, or with an error and no response.
\<close>

fun exchange_succeeded :: "event \<Rightarrow> bool" where
  "exchange_succeeded (ExchangeCallback None (Some r)) = True"
| "exchange_succeeded _ = False"

fun exchange_failed :: "event \<Rightarrow> bool" where
  "exchange_failed (ExchangeCallback (Some e) None) = True"
| "exchange_failed _ = False"

fun callback_contract :: "event \<Rightarrow> bool" where
  "callback_contract (ExchangeCallback None None) = False"
| "callback_contract (ExchangeCallback (Some e) (Some r)) = False"
| "callback_contract _ = True"

text \<open>The responses of the successful exchanges of a handshake, in order.\<close>

fun successes :: "event list \<Rightarrow> TokenResponse list" where
  "successes [] = []"
| "successes (ExchangeCallback None (Some r) # evs) = r # successes evs"
| "successes (_ # evs) = successes evs"

subsection \<open>Concrete inputs\<close>

definition no_location :: PlaidLocation where
  "no_location = \<lparr>PlaidLocation.address = None, city = None, region = None, postal_code = None,
                   country = None, lat = None, lon = None\<rparr>"

definition raw_tx :: "string \<Rightarrow> string \<Rightarrow> PlaidTransaction" where
  "raw_tx tid aid =
     \<lparr>PlaidTransaction.account_id = aid, amount = Some 12.5, iso_currency_code = Some ''USD'',
      unofficial_currency_code = Some ''BTC'', category = Some [''Food'', ''Coffee''],
      date = ''2020-01-02'', location = Some no_location, name = Some ''Cafe'',
      pending = Some False, transaction_id = tid, transaction_type = Some ''place''\<rparr>"

definition raw_account :: "string \<Rightarrow> PlaidAccount" where
  "raw_account aid =
     \<lparr>PlaidAccount.account_id = aid,
      balances = \<lparr>PlaidBalances.available = None, current = Some 100, limit = None,
                  iso_currency_code = Some ''USD'', unofficial_currency_code = Some ''BTC''\<rparr>,
      mask = None, name = Some ''Bank'', official_name = None,
      subtype = Some ''checking'', type = Some ''depository''\<rparr>"

text \<open>A raw account whose ISO currency code is the empty string.\<close>

definition empty_iso_account :: PlaidAccount where
  "empty_iso_account =
     (raw_account ''a1'')\<lparr>balances :=
        \<lparr>PlaidBalances.available = None, current = Some 100, limit = None,
         iso_currency_code = Some [], unofficial_currency_code = Some ''BTC''\<rparr>\<rparr>"

text \<open>A raw transaction without category.\<close>

definition no_category_tx :: PlaidTransaction where
  "no_category_tx = (raw_tx ''t1'' ''a1'')\<lparr>PlaidTransaction.category := None\<rparr>"

definition demo_transaction :: "string \<Rightarrow> string \<Rightarrow> Transaction" where
  "demo_transaction tid aid =
     \<lparr>Transaction.integration = Plaid, name = Some ''Cafe'', date = Timestamp 1577923200000,
      amount = Some 12.5, currency = Some ''USD'', type = Some ''place'', accountId = aid,
      transactionId = tid, category = ''Food - Coffee'', address = None, city = None,
      state = None, postal_code = None, country = None, latitude = None, longitude = None,
      pending = Some False, institution = None, account = None\<rparr>"

text \<open>A provider that serves consistent pages of a fixed list and reports its length.\<close>

definition paged_provider ::
  "PlaidAccount list \<Rightarrow> PlaidTransaction list \<Rightarrow> string \<Rightarrow> string \<Rightarrow> string
     \<Rightarrow> TransactionsRequestOptions \<Rightarrow> error + TransactionsResponse" where
  "paged_provider accts all tok start end' options =
     Inr \<lparr>accounts = accts,
          transactions = take (count options) (drop (offset options) all),
          total_transactions = length all\<rparr>"

definition failing_provider ::
  "string \<Rightarrow> string \<Rightarrow> string \<Rightarrow> TransactionsRequestOptions \<Rightarrow> error + TransactionsResponse" where
  "failing_provider tok start end' options = Inl (TransportError ''timeout'')"

definition env_of ::
  "(string \<Rightarrow> string \<Rightarrow> string \<Rightarrow> TransactionsRequestOptions \<Rightarrow> error + TransactionsResponse) \<Rightarrow> env" where
  "env_of provider =
     \<lparr>getTransactions = provider, format_valid = (\<lambda>t. ''2020-01-01''),
      parseISO = (\<lambda>s. Timestamp 1577923200000), subMonths = (\<lambda>d n. d), now = Timestamp 1600000000000\<rparr>"

definition exit_body :: body where
  "exit_body = \<lparr>public_token = None, exit = Some True, error = None\<rparr>"

definition token_body :: "string \<Rightarrow> body" where
  "token_body t = \<lparr>public_token = Some t, exit = None, error = None\<rparr>"

definition demo_token_response :: TokenResponse where
  "demo_token_response = \<lparr>access_token = ''accX'', item_id = ''itemX''\<rparr>"

definition demo_config :: AccountConfig where
  "demo_config = \<lparr>id' = ''item1'', integration = Plaid, token = ''access-1''\<rparr>"

section \<open>Paginated fetcher: results\<close>

lemma extra_requests_step:
  "k < tot \<Longrightarrow> extra_requests tot k = Suc (extra_requests tot (k + 500))"
proof (cases "tot - k \<le> 500")
  case True
  assume "k < tot"
  with True have "500 \<le> tot - k + 499" "tot - k + 499 < 2 * 500" "tot - (k + 500) = 0"
    by simp_all
  then have "(tot - k + 499) div 500 = 1" "(tot - (k + 500) + 499) div 500 = 0"
    by (simp_all add: div_nat_eqI)
  then show ?thesis by (simp add: extra_requests_def)
next
  case False
  then have "tot - k + 499 = (tot - (k + 500) + 499) + 500" by simp
  then have "(tot - k + 499) div 500 = (tot - (k + 500) + 499) div 500 + 1"
    by (metis div_add_self2 zero_neq_numeral)
  then show ?thesis by (simp add: extra_requests_def)
qed

lemma extra_requests_done: "tot \<le> k \<Longrightarrow> extra_requests tot k = 0"
  unfolding extra_requests_def by simp

lemma upt_shift: "map f [Suc a..<Suc b] = map (\<lambda>i. f (Suc i)) [a..<b]"
  by (simp add: map_Suc_upt [symmetric] del: upt_Suc)

lemma fetch_loop_consistent:
  assumes pages: "\<And>k. \<exists>r. get \<lparr>count = 500, offset = k\<rparr> = Inr r
                       \<and> length (TransactionsResponse.transactions r) = min 500 (tot - k)"
  shows "count options = 500 \<Longrightarrow> total_transactions resp = tot \<Longrightarrow>
         length (TransactionsResponse.transactions resp) = min tot (offset options + 500) \<Longrightarrow>
         \<exists>resp'. fetch_loop get options resp sent =
             Some (Inr resp', sent @ map (\<lambda>i. options\<lparr>offset := offset options + 500 * i\<rparr>)
                                      [1..<Suc (extra_requests tot (offset options + 500))])
           \<and> total_transactions resp' = tot
           \<and> accounts resp' = accounts resp
           \<and> length (TransactionsResponse.transactions resp') = tot
           \<and> TransactionsResponse.transactions resp' =
               TransactionsResponse.transactions resp
               @ concat (map (\<lambda>i. page get (offset options + 500 * i))
                           [1..<Suc (extra_requests tot (offset options + 500))])"
proof (induction "tot - (offset options + 500)" arbitrary: options resp sent rule: less_induct)
  case less
  let ?k = "offset options + 500"
  show ?case
  proof (cases "?k < tot")
    case False
    then have "extra_requests tot ?k = 0" by (simp add: extra_requests_done)
    moreover have "\<not> length (TransactionsResponse.transactions resp) < total_transactions resp"
      using False less.prems by simp
    moreover have "length (TransactionsResponse.transactions resp) = tot"
      using False less.prems by simp
    ultimately show ?thesis
      using less.prems by (subst fetch_loop.simps) simp
  next
    case True
    let ?options = "options\<lparr>offset := offset options + count options\<rparr>"
    obtain r where r: "get \<lparr>count = 500, offset = ?k\<rparr> = Inr r"
        "length (TransactionsResponse.transactions r) = min 500 (tot - ?k)"
      using pages by blast
    have opts: "?options = \<lparr>count = 500, offset = ?k\<rparr>"
      using less.prems(1) by simp
    let ?resp = "resp\<lparr>TransactionsResponse.transactions :=
                  TransactionsResponse.transactions resp @ TransactionsResponse.transactions r\<rparr>"
    have pg: "page get ?k = TransactionsResponse.transactions r"
      by (simp add: page_def r)
    have lt: "length (TransactionsResponse.transactions resp) < total_transactions resp"
      using True less.prems by simp
    have step: "fetch_loop get options resp sent = fetch_loop get ?options ?resp (sent @ [?options])"
      by (subst fetch_loop.simps) (simp add: lt opts r)
    have "tot - (offset ?options + 500) < tot - ?k"
      using True less.prems(1) by simp
    moreover have "count ?options = 500" using less.prems(1) by simp
    moreover have "total_transactions ?resp = tot" using less.prems(2) by simp
    moreover have "length (TransactionsResponse.transactions ?resp) = min tot (offset ?options + 500)"
      using True less.prems r(2) by simp
    ultimately obtain resp' where IH:
      "fetch_loop get ?options ?resp (sent @ [?options]) =
         Some (Inr resp', (sent @ [?options]) @ map (\<lambda>i. ?options\<lparr>offset := offset ?options + 500 * i\<rparr>)
                                      [1..<Suc (extra_requests tot (offset ?options + 500))])"
      "total_transactions resp' = tot" "accounts resp' = accounts ?resp"
      "length (TransactionsResponse.transactions resp') = tot"
      "TransactionsResponse.transactions resp' =
               TransactionsResponse.transactions ?resp
               @ concat (map (\<lambda>i. page get (offset ?options + 500 * i))
                           [1..<Suc (extra_requests tot (offset ?options + 500))])"
      using less.hyps [of ?options ?resp "sent @ [?options]"] by blast
    let ?n = "extra_requests tot (?k + 500)"
    have n: "extra_requests tot ?k = Suc ?n"
      using True by (rule extra_requests_step)
    have off: "offset ?options = ?k" using less.prems(1) by simp
    have l1: "map (\<lambda>i. options\<lparr>offset := offset options + 500 * i\<rparr>) [1..<Suc (Suc ?n)]
          = ?options # map (\<lambda>i. ?options\<lparr>offset := offset ?options + 500 * i\<rparr>) [1..<Suc ?n]"
      using less.prems(1) by (simp add: upt_conv_Cons upt_shift del: upt_Suc)
    have l2: "map (\<lambda>i. page get (offset options + 500 * i)) [1..<Suc (Suc ?n)]
          = page get ?k # map (\<lambda>i. page get (offset ?options + 500 * i)) [1..<Suc ?n]"
      using less.prems(1) by (simp add: upt_conv_Cons upt_shift add.assoc del: upt_Suc)
    show ?thesis
      unfolding step n l1 l2 using IH by (simp add: off pg del: upt_Suc)
  qed
qed


lemma requests_total:
  "Suc (extra_requests tot 500) = max 1 ((tot + 499) div 500)"
proof (cases "0 < tot")
  case True
  then have "extra_requests tot 0 = Suc (extra_requests tot 500)"
    using extra_requests_step [of 0 tot] by simp
  then show ?thesis by (simp add: extra_requests_def)
next
  case False
  then show ?thesis by (simp add: extra_requests_def)
qed

text \<open>
  C1 (as amended). When the provider reports the same total \<open>tot\<close> at every request and the
  page at offset \<open>k\<close> holds \<open>min 500 (tot - k)\<close> records, \<^verbatim>\<open>fetchPagedTransactions\<close>
  resolves with exactly \<open>tot\<close> transactions. The requests go to the offsets
  \<open>0, 500, 1000, \<dots>\<close>; there are \<open>max 1 (ceil (tot / 500))\<close> of them, the first being sent
  before any total is known. The result is the concatenation of the pages in the order of
  their arrival.
\<close>

theorem fetchPagedTransactions_consistent:
  assumes pages:
    "\<forall>k. \<exists>r. getTransactions e (token cfg) (format_valid e s) (format_valid e t)
                 \<lparr>count = 500, offset = k\<rparr> = Inr r
             \<and> total_transactions r = tot
             \<and> length (TransactionsResponse.transactions r) = min 500 (tot - k)"
  shows
    "\<exists>r sent. fetchPagedTransactions e cfg (Timestamp s) (Timestamp t) = Some (Resolved r, sent)
        \<and> length (TransactionsResponse.transactions r) = tot
        \<and> map offset sent = map (\<lambda>i. 500 * i) [0..<max 1 ((tot + 499) div 500)]
        \<and> TransactionsResponse.transactions r =
            concat (map (\<lambda>i. page (getTransactions e (token cfg) (format_valid e s) (format_valid e t))
                                (500 * i))
                      [0..<max 1 ((tot + 499) div 500)])"
proof -
  let ?get = "getTransactions e (token cfg) (format_valid e s) (format_valid e t)"
  let ?o = "\<lparr>count = 500, offset = 0\<rparr>"
  obtain r0 where r0: "?get ?o = Inr r0" "total_transactions r0 = tot"
      "length (TransactionsResponse.transactions r0) = min 500 (tot - 0)"
    using pages by blast
  have pg: "\<And>k. \<exists>r. ?get \<lparr>count = 500, offset = k\<rparr> = Inr r
                \<and> length (TransactionsResponse.transactions r) = min 500 (tot - k)"
    using pages by blast
  have len0: "length (TransactionsResponse.transactions r0) = min tot (offset ?o + 500)"
    using r0(3) by (simp add: min.commute)
  obtain r where r:
    "fetch_loop ?get ?o r0 [?o] =
       Some (Inr r, [?o] @ map (\<lambda>i. ?o\<lparr>offset := offset ?o + 500 * i\<rparr>)
                             [1..<Suc (extra_requests tot (offset ?o + 500))])"
    "length (TransactionsResponse.transactions r) = tot"
    "TransactionsResponse.transactions r =
       TransactionsResponse.transactions r0
       @ concat (map (\<lambda>i. page ?get (offset ?o + 500 * i))
                   [1..<Suc (extra_requests tot (offset ?o + 500))])"
    using fetch_loop_consistent [of ?get tot ?o r0 "[?o]", OF pg _ r0(2) len0] by auto
  let ?n = "extra_requests tot 500"
  have p0: "page ?get 0 = TransactionsResponse.transactions r0"
    by (simp add: page_def r0(1))
  have run: "fetchPagedTransactions e cfg (Timestamp s) (Timestamp t) =
      Some (Resolved r, ?o # map (\<lambda>i. \<lparr>count = 500, offset = 500 * i\<rparr>) [1..<Suc ?n])"
    using r(1) by (simp add: fetchPagedTransactions_def format_def r0(1) del: upt_Suc)
  have offs: "map offset (?o # map (\<lambda>i. \<lparr>count = 500, offset = 500 * i\<rparr>) [1..<Suc ?n])
      = map (\<lambda>i. 500 * i) [0..<Suc ?n]"
    by (simp add: upt_conv_Cons [of 0] comp_def del: upt_Suc)
  have txs: "TransactionsResponse.transactions r =
      concat (map (\<lambda>i. page ?get (500 * i)) [0..<Suc ?n])"
    using r(3) by (simp add: upt_conv_Cons [of 0] p0 del: upt_Suc)
  show ?thesis
    unfolding requests_total [symmetric] using run r(2) offs txs by blast
qed

text \<open>The provider of 1200 records is consistent: three requests, at 0, 500 and 1000.\<close>

theorem fetchPagedTransactions_consistent_witness:
  "\<exists>r sent. fetchPagedTransactions (env_of (paged_provider [] (map (raw_tx ''tx'') (map digits [0..<1200]))))
        demo_config (Timestamp 0) (Timestamp 1) = Some (Resolved r, sent)
     \<and> length (TransactionsResponse.transactions r) = 1200
     \<and> map offset sent = [0, 500, 1000]"
proof -
  let ?all = "map (raw_tx ''tx'') (map digits [0..<1200])"
  let ?e = "env_of (paged_provider [] ?all)"
  have h: "\<forall>k. \<exists>r. getTransactions ?e (token demo_config) (format_valid ?e 0) (format_valid ?e 1)
                 \<lparr>count = 500, offset = k\<rparr> = Inr r
             \<and> total_transactions r = 1200
             \<and> length (TransactionsResponse.transactions r) = min 500 (1200 - k)"
    by (simp add: env_of_def paged_provider_def min.commute del: upt_Suc)
  have n: "[0..<max 1 ((1200 + 499) div 500)] = [0, 1, Suc 1]"
    by (simp add: upt_conv_Cons)
  show ?thesis
    using fetchPagedTransactions_consistent [of ?e demo_config 0 1 1200, OF h]
    unfolding n by auto
qed

text \<open>
  C1 as stated asks for \<open>ceil (tot / 500)\<close> requests. A consistent provider with no
  transactions is asked once, not zero times.
\<close>

theorem fetchPagedTransactions_empty_total_one_request:
  "fetchPagedTransactions (env_of (paged_provider [] [])) demo_config (Timestamp 0) (Timestamp 1) =
     Some (Resolved \<lparr>accounts = [], transactions = [], total_transactions = 0\<rparr>,
           [\<lparr>count = 500, offset = 0\<rparr>])
   \<and> length [\<lparr>count = 500, offset = (0::nat)\<rparr>] \<noteq> (0 + 499) div 500"
  by (subst fetchPagedTransactions_def, subst fetch_loop.simps)
     (simp add: env_of_def paged_provider_def format_def)

section \<open>The per-account pipeline: results\<close>

lemma fetchPaged_single_page:
  "length all \<le> 500 \<Longrightarrow>
   fetchPagedTransactions (env_of (paged_provider accts all)) cfg (Timestamp s) (Timestamp t) =
     Some (Resolved \<lparr>accounts = accts, transactions = all, total_transactions = length all\<rparr>,
           [\<lparr>count = 500, offset = 0\<rparr>])"
  by (subst fetchPagedTransactions_def, subst fetch_loop.simps)
     (simp add: env_of_def paged_provider_def format_def)

lemma fetchPaged_failing:
  "fetchPagedTransactions (env_of failing_provider) cfg (Timestamp s) (Timestamp t) =
     Some (Rejected (TransportError ''timeout''), [\<lparr>count = 500, offset = 0\<rparr>])"
  by (simp add: fetchPagedTransactions_def env_of_def failing_provider_def format_def)

lemma fetchAccount_rejected:
  "fetchPagedTransactions e cfg sd ed = Some (Rejected err, sent) \<Longrightarrow>
   fetchAccount e cfg sd ed l0 =
     Some (Resolved [],
           logError (''Error fetching account '' @ id' cfg @ ''.'') (ErrorData err) (warn_if_old e sd l0),
           sent)"
  by (simp add: fetchAccount_def)

lemma fetchAccount_throws:
  "fetchPagedTransactions e cfg sd ed = Some (Resolved d, sent) \<Longrightarrow>
   map_throwing (toTransaction e) (TransactionsResponse.transactions d) = Inl err \<Longrightarrow>
   fetchAccount e cfg sd ed l0 =
     Some (Resolved [],
           logError (''Error fetching account '' @ id' cfg @ ''.'') (ErrorData err) (warn_if_old e sd l0),
           sent)"
  by (simp add: fetchAccount_def on_data_def)

lemma fetchAccount_resolved:
  "fetchPagedTransactions e cfg sd ed = Some (Resolved d, sent) \<Longrightarrow>
   map_throwing (toTransaction e) (TransactionsResponse.transactions d) = Inr txs \<Longrightarrow>
   fetchAccount e cfg sd ed l0 =
     Some (Resolved (attach (map toAccount (accounts d)) txs),
           logInfo (''Fetched '' @ digits (length (accounts d)) @ '' sub-accounts and ''
                      @ digits (total_transactions d) @ '' transactions.'')
             (AccountsData (attach (map toAccount (accounts d)) txs)) (warn_if_old e sd l0),
           sent)"
  by (simp add: fetchAccount_def on_data_def Let_def)

lemma fetchAccount_settles:
  "fetchAccount e cfg sd ed l0 = Some (out, ls, sent) \<Longrightarrow> \<exists>accts. out = Resolved accts"
  by (auto simp: fetchAccount_def Let_def split: option.splits settled.splits sum.splits prod.splits)

lemma fetchAccount_None:
  "(fetchAccount e cfg sd ed l0 = None) = (fetchPagedTransactions e cfg sd ed = None)"
  by (auto simp: fetchAccount_def Let_def split: option.splits settled.splits sum.splits prod.splits)

text \<open>
  C2. \<^verbatim>\<open>fetchAccount\<close> never rejects: whenever it settles, it resolves. When the page
  fetch rejects (a provider error, or the RangeError of formatting an invalid date), and when
  normalisation throws on a fetched record, it resolves with the empty list after logging the
  error. Reconciliation has no failing step. It stays pending only when pagination never ends.
\<close>

theorem fetchAccount_never_rejects:
  "(\<forall>out ls sent. fetchAccount e cfg sd ed l0 = Some (out, ls, sent) \<longrightarrow> (\<exists>accts. out = Resolved accts))
   \<and> (\<forall>err sent. fetchPagedTransactions e cfg sd ed = Some (Rejected err, sent) \<longrightarrow>
         fetchAccount e cfg sd ed l0 =
           Some (Resolved [],
                 logError (''Error fetching account '' @ id' cfg @ ''.'') (ErrorData err)
                   (warn_if_old e sd l0),
                 sent))
   \<and> (\<forall>d err sent. fetchPagedTransactions e cfg sd ed = Some (Resolved d, sent)
           \<and> map_throwing (toTransaction e) (TransactionsResponse.transactions d) = Inl err \<longrightarrow>
         fetchAccount e cfg sd ed l0 =
           Some (Resolved [],
                 logError (''Error fetching account '' @ id' cfg @ ''.'') (ErrorData err)
                   (warn_if_old e sd l0),
                 sent))
   \<and> ((fetchAccount e cfg sd ed l0 = None) = (fetchPagedTransactions e cfg sd ed = None))"
proof (intro conjI allI impI)
  fix out ls sent
  assume "fetchAccount e cfg sd ed l0 = Some (out, ls, sent)"
  then show "\<exists>accts. out = Resolved accts" by (rule fetchAccount_settles)
next
  fix err sent
  assume "fetchPagedTransactions e cfg sd ed = Some (Rejected err, sent)"
  then show "fetchAccount e cfg sd ed l0 =
           Some (Resolved [],
                 logError (''Error fetching account '' @ id' cfg @ ''.'') (ErrorData err)
                   (warn_if_old e sd l0),
                 sent)" by (rule fetchAccount_rejected)
next
  fix d err sent
  assume "fetchPagedTransactions e cfg sd ed = Some (Resolved d, sent)
           \<and> map_throwing (toTransaction e) (TransactionsResponse.transactions d) = Inl err"
  then show "fetchAccount e cfg sd ed l0 =
           Some (Resolved [],
                 logError (''Error fetching account '' @ id' cfg @ ''.'') (ErrorData err)
                   (warn_if_old e sd l0),
                 sent)" by (simp add: fetchAccount_throws)
next
  show "(fetchAccount e cfg sd ed l0 = None) = (fetchPagedTransactions e cfg sd ed = None)"
    by (rule fetchAccount_None)
qed

text \<open>A provider that fails, and a provider that serves a transaction without category.\<close>

theorem fetchAccount_never_rejects_witness:
  "fetchAccount (env_of failing_provider) demo_config (Timestamp 0) (Timestamp 1) [] =
     Some (Resolved [],
           [\<lparr>level = Warn,
             message = ''Transaction history older than 6 months may not be available for some institutions.'',
             data = NoData\<rparr>,
            \<lparr>level = Error, message = ''Error fetching account item1.'',
             data = ErrorData (TransportError ''timeout'')\<rparr>],
           [\<lparr>count = 500, offset = 0\<rparr>])
   \<and> fetchAccount (env_of (paged_provider [raw_account ''a1''] [(raw_tx ''t1'' ''a1'')\<lparr>PlaidTransaction.category := None\<rparr>]))
        demo_config (Timestamp 0) (Timestamp 1) [] =
     Some (Resolved [],
           [\<lparr>level = Warn,
             message = ''Transaction history older than 6 months may not be available for some institutions.'',
             data = NoData\<rparr>,
            \<lparr>level = Error, message = ''Error fetching account item1.'',
             data = ErrorData (TypeError ''Cannot read property join of null'')\<rparr>],
           [\<lparr>count = 500, offset = 0\<rparr>])"
proof -
  let ?e1 = "env_of failing_provider"
  let ?bad = "(raw_tx ''t1'' ''a1'')\<lparr>PlaidTransaction.category := None\<rparr>"
  let ?e2 = "env_of (paged_provider [raw_account ''a1''] [?bad])"
  let ?d = "\<lparr>accounts = [raw_account ''a1''], transactions = [?bad], total_transactions = length [?bad]\<rparr>"
  have h1: "fetchPagedTransactions ?e1 demo_config (Timestamp 0) (Timestamp 1) =
      Some (Rejected (TransportError ''timeout''), [\<lparr>count = 500, offset = 0\<rparr>])"
    by (rule fetchPaged_failing)
  have h2: "fetchPagedTransactions ?e2 demo_config (Timestamp 0) (Timestamp 1) =
      Some (Resolved ?d, [\<lparr>count = 500, offset = 0\<rparr>])"
    by (rule fetchPaged_single_page) simp
  have h3: "map_throwing (toTransaction ?e2) (TransactionsResponse.transactions ?d) =
      Inl (TypeError ''Cannot read property join of null'')"
    by (simp add: toTransaction_def)
  have w: "\<And>e. warn_if_old (env_of e) (Timestamp 0) [] =
      [\<lparr>level = Warn,
        message = ''Transaction history older than 6 months may not be available for some institutions.'',
        data = NoData\<rparr>]"
    by (simp add: warn_if_old_def env_of_def date_lt_def logWarn_def)
  have r1: "fetchAccount ?e1 demo_config (Timestamp 0) (Timestamp 1) [] =
      Some (Resolved [],
            logError (''Error fetching account '' @ id' demo_config @ ''.'')
              (ErrorData (TransportError ''timeout'')) (warn_if_old ?e1 (Timestamp 0) []),
            [\<lparr>count = 500, offset = 0\<rparr>])"
    by (rule fetchAccount_never_rejects [of ?e1 demo_config "Timestamp 0" "Timestamp 1" "[]",
              THEN conjunct2, THEN conjunct1, rule_format, OF h1])
  have r2: "fetchAccount ?e2 demo_config (Timestamp 0) (Timestamp 1) [] =
      Some (Resolved [],
            logError (''Error fetching account '' @ id' demo_config @ ''.'')
              (ErrorData (TypeError ''Cannot read property join of null''))
              (warn_if_old ?e2 (Timestamp 0) []),
            [\<lparr>count = 500, offset = 0\<rparr>])"
    by (rule fetchAccount_never_rejects [of ?e2 demo_config "Timestamp 0" "Timestamp 1" "[]",
              THEN conjunct2, THEN conjunct2, THEN conjunct1, rule_format, OF conjI, OF h2 h3])
  show ?thesis
    unfolding r1 r2 w by (simp add: logError_def demo_config_def)
qed

section \<open>Record normaliser: results\<close>

lemma or_else_cases:
  "or_else a b = (case a of None \<Rightarrow> b | Some c \<Rightarrow> if c = [] then b else Some c)"
  by (simp add: or_else_def truthy_def split: option.splits)

lemma toTransaction_currency:
  "toTransaction e tx = Inr t \<Longrightarrow>
   Transaction.currency t = or_else (PlaidTransaction.iso_currency_code tx)
                                     (PlaidTransaction.unofficial_currency_code tx)"
  by (auto simp: toTransaction_def split: option.splits)

lemma toAccount_currency:
  "Account.currency (toAccount raw) =
     or_else (PlaidBalances.iso_currency_code (balances raw))
             (PlaidBalances.unofficial_currency_code (balances raw))"
  by (simp add: toAccount_def)

text \<open>
  C4 (as amended). In a normalised account and in a normalised transaction the currency is
  the ISO code whenever the raw record has a non-empty ISO code, whatever the unofficial code
  is; it is the unofficial code when the ISO code is absent or the empty string
  (\<^verbatim>\<open>||\<close> takes its right operand for every falsy left operand). It is always one of
  the two, never a combination.
\<close>

theorem currency_resolution:
  "(\<forall>c. PlaidBalances.iso_currency_code (balances raw) = Some c \<and> c \<noteq> [] \<longrightarrow>
        Account.currency (toAccount raw) = Some c)
   \<and> (PlaidBalances.iso_currency_code (balances raw) = None
        \<or> PlaidBalances.iso_currency_code (balances raw) = Some [] \<longrightarrow>
        Account.currency (toAccount raw) = PlaidBalances.unofficial_currency_code (balances raw))
   \<and> (Account.currency (toAccount raw) = PlaidBalances.iso_currency_code (balances raw)
        \<or> Account.currency (toAccount raw) = PlaidBalances.unofficial_currency_code (balances raw))
   \<and> (\<forall>t. toTransaction e tx = Inr t \<longrightarrow>
         (\<forall>c. PlaidTransaction.iso_currency_code tx = Some c \<and> c \<noteq> [] \<longrightarrow>
              Transaction.currency t = Some c)
       \<and> (PlaidTransaction.iso_currency_code tx = None
            \<or> PlaidTransaction.iso_currency_code tx = Some [] \<longrightarrow>
            Transaction.currency t = PlaidTransaction.unofficial_currency_code tx)
       \<and> (Transaction.currency t = PlaidTransaction.iso_currency_code tx
            \<or> Transaction.currency t = PlaidTransaction.unofficial_currency_code tx))"
  by (auto simp: toAccount_currency or_else_cases dest!: toTransaction_currency split: option.splits)

text \<open>
  A record with both codes normalises to the ISO code, a record with the unofficial code only
  to that code.
\<close>

theorem currency_resolution_witness:
  "Account.currency (toAccount (raw_account ''a1'')) = Some ''USD''
   \<and> (\<exists>t. toTransaction (env_of failing_provider) (raw_tx ''t1'' ''a1'') = Inr t
          \<and> Transaction.currency t = Some ''USD'')
   \<and> Account.currency (toAccount ((raw_account ''a1'')\<lparr>balances :=
          \<lparr>PlaidBalances.available = None, current = None, limit = None,
           iso_currency_code = None, unofficial_currency_code = Some ''BTC''\<rparr>\<rparr>)) = Some ''BTC''"
proof -
  let ?e = "env_of failing_provider"
  let ?b = "(raw_account ''a1'')\<lparr>balances :=
          \<lparr>PlaidBalances.available = None, current = None, limit = None,
           iso_currency_code = None, unofficial_currency_code = Some ''BTC''\<rparr>\<rparr>"
  obtain t where t: "toTransaction ?e (raw_tx ''t1'' ''a1'') = Inr t"
    by (simp add: toTransaction_def raw_tx_def)
  have a: "Account.currency (toAccount (raw_account ''a1'')) = Some ''USD''"
    using currency_resolution [of "raw_account ''a1''" ?e "raw_tx ''t1'' ''a1''",
            THEN conjunct1, rule_format, of "''USD''"]
    by (simp add: raw_account_def)
  have b: "Transaction.currency t = Some ''USD''"
    using currency_resolution [of "raw_account ''a1''" ?e "raw_tx ''t1'' ''a1''",
            THEN conjunct2, THEN conjunct2, THEN conjunct2, rule_format, OF t,
            THEN conjunct1, rule_format, of "''USD''"]
    by (simp add: raw_tx_def)
  have c: "Account.currency (toAccount ?b) = Some ''BTC''"
    using currency_resolution [of ?b ?e "raw_tx ''t1'' ''a1''", THEN conjunct2, THEN conjunct1]
    by simp
  show ?thesis using a b c t by simp
qed

text \<open>
  C4 as stated: the ISO code wins whenever it is present. An ISO code that is present as the
  empty string loses against the unofficial code.
\<close>

theorem currency_empty_iso_code:
  "PlaidBalances.iso_currency_code (balances empty_iso_account) = Some []
   \<and> Account.currency (toAccount empty_iso_account) = Some ''BTC''
   \<and> Account.currency (toAccount empty_iso_account)
       \<noteq> PlaidBalances.iso_currency_code (balances empty_iso_account)"
  by (simp add: empty_iso_account_def toAccount_def or_else_def truthy_def)

text \<open>
  C8 (as amended). Normalising an account never throws; normalising a transaction whose
  category list and location object are present never throws. In both, an absent mask,
  official name, balances subfield, location subfield, pair of currency codes, amount, name,
  type or pending flag leaves the output field absent.
\<close>

theorem normalisation_optional_fields:
  "(PlaidAccount.mask raw = None \<longrightarrow> Account.mask (toAccount raw) = None)
   \<and> (official_name raw = None \<longrightarrow> Account.account (toAccount raw) = None)
   \<and> (PlaidBalances.current (balances raw) = None \<longrightarrow> Account.current (toAccount raw) = None)
   \<and> (PlaidBalances.available (balances raw) = None \<longrightarrow> Account.available (toAccount raw) = None)
   \<and> (PlaidBalances.limit (balances raw) = None \<longrightarrow> Account.limit (toAccount raw) = None)
   \<and> (PlaidBalances.iso_currency_code (balances raw) = None
        \<and> PlaidBalances.unofficial_currency_code (balances raw) = None \<longrightarrow>
        Account.currency (toAccount raw) = None)
   \<and> (\<forall>cs loc. PlaidTransaction.category tx = Some cs \<and> location tx = Some loc \<longrightarrow>
        (\<exists>t. toTransaction e tx = Inr t
           \<and> (PlaidLocation.address loc = None \<longrightarrow> Transaction.address t = None)
           \<and> (PlaidLocation.city loc = None \<longrightarrow> Transaction.city t = None)
           \<and> (region loc = None \<longrightarrow> Transaction.state t = None)
           \<and> (PlaidLocation.postal_code loc = None \<longrightarrow> Transaction.postal_code t = None)
           \<and> (PlaidLocation.country loc = None \<longrightarrow> Transaction.country t = None)
           \<and> (lat loc = None \<longrightarrow> latitude t = None)
           \<and> (lon loc = None \<longrightarrow> longitude t = None)
           \<and> (PlaidTransaction.iso_currency_code tx = None
                \<and> PlaidTransaction.unofficial_currency_code tx = None \<longrightarrow>
                Transaction.currency t = None)
           \<and> (PlaidTransaction.amount tx = None \<longrightarrow> Transaction.amount t = None)
           \<and> (PlaidTransaction.name tx = None \<longrightarrow> Transaction.name t = None)
           \<and> (transaction_type tx = None \<longrightarrow> Transaction.type t = None)
           \<and> (PlaidTransaction.pending tx = None \<longrightarrow> Transaction.pending t = None)))"
proof -
  have acct: "(PlaidAccount.mask raw = None \<longrightarrow> Account.mask (toAccount raw) = None)
   \<and> (official_name raw = None \<longrightarrow> Account.account (toAccount raw) = None)
   \<and> (PlaidBalances.current (balances raw) = None \<longrightarrow> Account.current (toAccount raw) = None)
   \<and> (PlaidBalances.available (balances raw) = None \<longrightarrow> Account.available (toAccount raw) = None)
   \<and> (PlaidBalances.limit (balances raw) = None \<longrightarrow> Account.limit (toAccount raw) = None)
   \<and> (PlaidBalances.iso_currency_code (balances raw) = None
        \<and> PlaidBalances.unofficial_currency_code (balances raw) = None \<longrightarrow>
        Account.currency (toAccount raw) = None)"
    by (simp add: toAccount_def or_else_def truthy_def)
  have tx: "\<And>cs loc. PlaidTransaction.category tx = Some cs \<and> location tx = Some loc \<Longrightarrow>
        (\<exists>t. toTransaction e tx = Inr t
           \<and> (PlaidLocation.address loc = None \<longrightarrow> Transaction.address t = None)
           \<and> (PlaidLocation.city loc = None \<longrightarrow> Transaction.city t = None)
           \<and> (region loc = None \<longrightarrow> Transaction.state t = None)
           \<and> (PlaidLocation.postal_code loc = None \<longrightarrow> Transaction.postal_code t = None)
           \<and> (PlaidLocation.country loc = None \<longrightarrow> Transaction.country t = None)
           \<and> (lat loc = None \<longrightarrow> latitude t = None)
           \<and> (lon loc = None \<longrightarrow> longitude t = None)
           \<and> (PlaidTransaction.iso_currency_code tx = None
                \<and> PlaidTransaction.unofficial_currency_code tx = None \<longrightarrow>
                Transaction.currency t = None)
           \<and> (PlaidTransaction.amount tx = None \<longrightarrow> Transaction.amount t = None)
           \<and> (PlaidTransaction.name tx = None \<longrightarrow> Transaction.name t = None)
           \<and> (transaction_type tx = None \<longrightarrow> Transaction.type t = None)
           \<and> (PlaidTransaction.pending tx = None \<longrightarrow> Transaction.pending t = None))"
    by (auto simp: toTransaction_def or_else_def truthy_def)
  show ?thesis using acct tx by blast
qed

text \<open>
  An account without mask, official name, available balance and limit; a transaction whose
  location has no subfield.
\<close>

theorem normalisation_optional_fields_witness:
  "Account.mask (toAccount (raw_account ''a1'')) = None
   \<and> Account.account (toAccount (raw_account ''a1'')) = None
   \<and> Account.available (toAccount (raw_account ''a1'')) = None
   \<and> Account.limit (toAccount (raw_account ''a1'')) = None
   \<and> (\<exists>t. toTransaction (env_of failing_provider) (raw_tx ''t1'' ''a1'') = Inr t
          \<and> Transaction.address t = None \<and> Transaction.city t = None \<and> Transaction.state t = None
          \<and> Transaction.postal_code t = None \<and> Transaction.country t = None
          \<and> latitude t = None \<and> longitude t = None)"
  using normalisation_optional_fields [of "raw_account ''a1''" "raw_tx ''t1'' ''a1''"
          "env_of failing_provider"]
  by (simp add: raw_account_def raw_tx_def no_location_def)

text \<open>
  C8 as stated counts category among the fields that may be absent. On a transaction without
  category \<^verbatim>\<open>transaction.category.join\<close> throws a TypeError.
\<close>

theorem normalisation_throws_without_category:
  "PlaidTransaction.category no_category_tx = None
   \<and> toTransaction (env_of failing_provider) no_category_tx =
       Inl (TypeError ''Cannot read property join of null'')"
  by (simp add: no_category_tx_def toTransaction_def)

section \<open>Reconciler: results\<close>

lemma txs_of_attached:
  "txs_of (a\<lparr>Account.transactions := Some ts\<rparr>) = ts"
  by (simp add: txs_of_def)

lemma attach_length: "length (attach accts txs) = length accts"
  by (simp add: attach_def)

lemma attach_nth:
  "i < length accts \<Longrightarrow>
   attach accts txs ! i =
     (accts ! i)\<lparr>Account.transactions :=
        Some (map (embedded (accts ! i))
               (filter (\<lambda>t. Transaction.accountId t = Account.accountId (accts ! i)) txs))\<rparr>"
  by (simp add: attach_def embedded_def [abs_def])

lemma attach_set:
  "a' \<in> set (attach accts txs) \<Longrightarrow>
   \<exists>a\<in>set accts. a' = a\<lparr>Account.transactions :=
        Some (map (embedded a) (filter (\<lambda>t. Transaction.accountId t = Account.accountId a) txs))\<rparr>"
  by (auto simp: attach_def embedded_def [abs_def])

lemma embedded_accountId: "Transaction.accountId (embedded a t) = Transaction.accountId t"
  by (simp add: embedded_def)

lemma attach_strip:
  "(\<forall>a\<in>set accts. Account.transactions a = None) \<Longrightarrow>
   map (\<lambda>a. a\<lparr>Account.transactions := None\<rparr>) (attach accts txs) = accts"
  by (induction accts) (simp_all add: attach_def)

lemma toAccount_no_transactions: "Account.transactions (toAccount raw) = None"
  by (simp add: toAccount_def)

lemma toAccount_accountId: "Account.accountId (toAccount raw) = PlaidAccount.account_id raw"
  by (simp add: toAccount_def)

text \<open>
  C3. A successful \<^verbatim>\<open>fetchAccount\<close> call (the pages were fetched into \<open>d\<close> and
  normalised into \<open>txs\<close>) resolves with accounts such that: every embedded transaction
  carries the accountId of the account it is embedded in; a normalised transaction whose
  accountId is that of no account of the batch is in no account's list, and no embedded
  transaction carries its accountId (the result holds nothing but the accounts); the
  accounts of the batch all appear, in order, and one without a matching transaction has the
  empty list.
\<close>

theorem fetchAccount_join:
  assumes fetched: "fetchPagedTransactions e cfg sd ed = Some (Resolved d, sent)"
    and normalised: "map_throwing (toTransaction e) (TransactionsResponse.transactions d) = Inr txs"
  shows "\<exists>accts ls. fetchAccount e cfg sd ed l0 = Some (Resolved accts, ls, sent)
     \<and> (\<forall>a\<in>set accts. \<forall>t\<in>set (txs_of a). Transaction.accountId t = Account.accountId a)
     \<and> (\<forall>t\<in>set txs. Transaction.accountId t \<notin> set (map PlaidAccount.account_id (accounts d)) \<longrightarrow>
           (\<forall>a\<in>set accts. \<forall>t'\<in>set (txs_of a).
               Transaction.accountId t' \<noteq> Transaction.accountId t \<and> t' \<noteq> t))
     \<and> map (\<lambda>a. a\<lparr>Account.transactions := None\<rparr>) accts = map toAccount (accounts d)
     \<and> (\<forall>a\<in>set accts. Account.transactions a \<noteq> None
           \<and> ((\<forall>t\<in>set txs. Transaction.accountId t \<noteq> Account.accountId a) \<longrightarrow>
                  Account.transactions a = Some []))"
proof -
  let ?accts = "attach (map toAccount (accounts d)) txs"
  have run: "\<exists>ls. fetchAccount e cfg sd ed l0 = Some (Resolved ?accts, ls, sent)"
    using fetchAccount_resolved [OF fetched normalised] by blast
  have own: "\<forall>a\<in>set ?accts. \<forall>t\<in>set (txs_of a). Transaction.accountId t = Account.accountId a"
    by (auto dest!: attach_set simp: txs_of_attached embedded_accountId)
  have ids: "\<forall>a\<in>set ?accts. Account.accountId a \<in> set (map PlaidAccount.account_id (accounts d))"
    by (auto dest!: attach_set simp: toAccount_accountId)
  have orphan: "\<forall>t\<in>set txs. Transaction.accountId t \<notin> set (map PlaidAccount.account_id (accounts d)) \<longrightarrow>
           (\<forall>a\<in>set ?accts. \<forall>t'\<in>set (txs_of a).
               Transaction.accountId t' \<noteq> Transaction.accountId t \<and> t' \<noteq> t)"
    using own ids by metis
  have strip: "map (\<lambda>a. a\<lparr>Account.transactions := None\<rparr>) ?accts = map toAccount (accounts d)"
    by (rule attach_strip) (auto simp: toAccount_no_transactions)
  have empty: "\<forall>a\<in>set ?accts. Account.transactions a \<noteq> None
           \<and> ((\<forall>t\<in>set txs. Transaction.accountId t \<noteq> Account.accountId a) \<longrightarrow>
                  Account.transactions a = Some [])"
    by (auto dest!: attach_set simp: filter_empty_conv)
  show ?thesis
    using run own orphan strip empty by blast
qed


text \<open>
  Two accounts and two transactions: one transaction belongs to the first account, the other
  to no account; the second account has no transaction.
\<close>

theorem fetchAccount_join_witness:
  "\<exists>accts ls.
      fetchAccount (env_of (paged_provider [raw_account ''a1'', raw_account ''a2'']
                              [raw_tx ''t1'' ''a1'', raw_tx ''t2'' ''zz'']))
        demo_config (Timestamp 0) (Timestamp 1) [] =
        Some (Resolved accts, ls, [\<lparr>count = 500, offset = 0\<rparr>])
    \<and> (\<forall>a\<in>set accts. \<forall>t\<in>set (txs_of a). Transaction.accountId t = Account.accountId a)
    \<and> map (\<lambda>a. a\<lparr>Account.transactions := None\<rparr>) accts =
        [toAccount (raw_account ''a1''), toAccount (raw_account ''a2'')]"
proof -
  let ?e = "env_of (paged_provider [raw_account ''a1'', raw_account ''a2'']
                      [raw_tx ''t1'' ''a1'', raw_tx ''t2'' ''zz''])"
  let ?d = "\<lparr>accounts = [raw_account ''a1'', raw_account ''a2''],
             transactions = [raw_tx ''t1'' ''a1'', raw_tx ''t2'' ''zz''],
             total_transactions = length [raw_tx ''t1'' ''a1'', raw_tx ''t2'' ''zz'']\<rparr>"
  have h1: "fetchPagedTransactions ?e demo_config (Timestamp 0) (Timestamp 1) =
      Some (Resolved ?d, [\<lparr>count = 500, offset = 0\<rparr>])"
    by (rule fetchPaged_single_page) simp
  obtain txs where h2:
    "map_throwing (toTransaction ?e) (TransactionsResponse.transactions ?d) = Inr txs"
    by (simp add: toTransaction_def raw_tx_def)
  show ?thesis
    using fetchAccount_join [OF h1 h2, of "[]"] by auto
qed

text \<open>
  C9. Attachment changes no field of an account but \<^verbatim>\<open>transactions\<close>. Every transaction
  attached to an account is a normalised transaction of the batch in which exactly
  \<^verbatim>\<open>institution\<close> and \<^verbatim>\<open>account\<close> were overwritten, with the institution and the
  display name of the owning account: putting the two old values back gives the normalised
  transaction.
\<close>

theorem attach_frame:
  "length (attach accts txs) = length accts
   \<and> (\<forall>i<length accts.
         (attach accts txs ! i)\<lparr>Account.transactions := Account.transactions (accts ! i)\<rparr> = accts ! i
       \<and> Account.transactions (attach accts txs ! i) \<noteq> None
       \<and> (\<forall>t'\<in>set (txs_of (attach accts txs ! i)). \<exists>t\<in>set txs.
             t'\<lparr>Transaction.institution := Transaction.institution t,
                Transaction.account := Transaction.account t\<rparr> = t
           \<and> Transaction.institution t' = Account.institution (accts ! i)
           \<and> Transaction.account t' = Account.account (accts ! i)))"
proof (intro conjI allI impI)
  show "length (attach accts txs) = length accts" by (rule attach_length)
next
  fix i assume "i < length accts"
  then show "(attach accts txs ! i)\<lparr>Account.transactions := Account.transactions (accts ! i)\<rparr> = accts ! i"
    by (simp add: attach_nth)
next
  fix i assume "i < length accts"
  then show "Account.transactions (attach accts txs ! i) \<noteq> None"
    by (simp add: attach_nth)
next
  fix i assume "i < length accts"
  then show "\<forall>t'\<in>set (txs_of (attach accts txs ! i)). \<exists>t\<in>set txs.
             t'\<lparr>Transaction.institution := Transaction.institution t,
                Transaction.account := Transaction.account t\<rparr> = t
           \<and> Transaction.institution t' = Account.institution (accts ! i)
           \<and> Transaction.account t' = Account.account (accts ! i)"
    by (force simp: attach_nth txs_of_attached embedded_def)
qed

text \<open>
  One account, one transaction of its own and one of another account.
\<close>

theorem attach_frame_witness:
  "attach [toAccount (raw_account ''a1'')] [demo_transaction ''t1'' ''a1'', demo_transaction ''t2'' ''zz'']
   = [(toAccount (raw_account ''a1''))\<lparr>Account.transactions := Some
         [(demo_transaction ''t1'' ''a1'')\<lparr>Transaction.institution := Some ''Bank'',
                                            Transaction.account := None\<rparr>]\<rparr>]"
  using attach_frame [of "[toAccount (raw_account ''a1'')]"
                         "[demo_transaction ''t1'' ''a1'', demo_transaction ''t2'' ''zz'']"]
  by (simp add: attach_def toAccount_def raw_account_def demo_transaction_def)

lemma sum_list_indicator:
  "sum_list (map (\<lambda>x. if P x then 1 else 0) xs) = length (filter P xs)"
  by (induction xs) simp_all

lemma attached_total:
  "sum_list (map (\<lambda>a. length (txs_of a)) (attach accts txs)) =
   sum_list (map (\<lambda>a. length (filter (\<lambda>t. Transaction.accountId t = Account.accountId a) txs)) accts)"
  by (simp add: attach_def txs_of_def comp_def)

lemma double_count:
  "sum_list (map (\<lambda>a. length (filter (\<lambda>t. Transaction.accountId t = Account.accountId a) txs)) accts) =
   sum_list (map (\<lambda>t. length (filter (\<lambda>a. Account.accountId a = Transaction.accountId t) accts)) txs)"
proof (induction txs)
  case Nil
  then show ?case by simp
next
  case (Cons t txs)
  have "sum_list (map (\<lambda>a. length (filter (\<lambda>t. Transaction.accountId t = Account.accountId a) (t # txs))) accts)
      = sum_list (map (\<lambda>a. (if Account.accountId a = Transaction.accountId t then 1 else 0)
                          + length (filter (\<lambda>t. Transaction.accountId t = Account.accountId a) txs)) accts)"
    by (rule arg_cong [where f = sum_list], rule map_cong) auto
  also have "\<dots> = length (filter (\<lambda>a. Account.accountId a = Transaction.accountId t) accts)
      + sum_list (map (\<lambda>a. length (filter (\<lambda>t. Transaction.accountId t = Account.accountId a) txs)) accts)"
    by (simp add: sum_list_addf sum_list_indicator)
  finally show ?case using Cons.IH by simp
qed

lemma distinct_count:
  "distinct (map f xs) \<Longrightarrow> length (filter (\<lambda>x. f x = v) xs) = (if v \<in> set (map f xs) then 1 else 0)"
  by (induction xs) auto

lemma embedded_member:
  assumes "t \<in> set txs" and "i < length accts"
  shows "(embedded (accts ! i) t \<in> set (txs_of (attach accts txs ! i))) =
         (Transaction.accountId t = Account.accountId (accts ! i))"
proof
  assume "embedded (accts ! i) t \<in> set (txs_of (attach accts txs ! i))"
  then obtain t' where "Transaction.accountId t' = Account.accountId (accts ! i)"
      "embedded (accts ! i) t' = embedded (accts ! i) t"
    using assms(2) by (auto simp: attach_nth txs_of_attached)
  then show "Transaction.accountId t = Account.accountId (accts ! i)"
    by (metis embedded_accountId)
next
  assume "Transaction.accountId t = Account.accountId (accts ! i)"
  then show "embedded (accts ! i) t \<in> set (txs_of (attach accts txs ! i))"
    using assms by (simp add: attach_nth txs_of_attached)
qed

lemma unique_owner:
  assumes d: "distinct (map Account.accountId accts)"
    and m: "v \<in> set (map Account.accountId accts)"
  shows "\<exists>!i. i < length accts \<and> Account.accountId (accts ! i) = v"
proof -
  obtain i where i: "i < length accts" "Account.accountId (accts ! i) = v"
    using m by (auto simp: in_set_conv_nth)
  have "j = i" if "j < length accts" "Account.accountId (accts ! j) = v" for j
  proof -
    have "map Account.accountId accts ! j = map Account.accountId accts ! i"
      using that i by simp
    then show ?thesis
      using d that(1) i(1) by (simp add: nth_eq_iff_index_eq del: nth_map)
  qed
  with i show ?thesis by blast
qed

text \<open>
  C10 (as amended). When two accounts of a batch carry the same accountId, every transaction
  with that accountId is embedded in both. The list of each account is exactly the
  transactions of the batch that carry its accountId, in the order of the batch, each
  embedded; so a transaction is embedded once for every account that carries its accountId.
  When the accountIds are pairwise distinct, every transaction whose accountId is that of an
  account has exactly one owning account and is embedded in the list of exactly that
  account: the lists partition the matching transactions of the batch. A transaction whose
  accountId is that of no account is embedded in no list, whether or not the accountIds are
  distinct, so the partition is not one of the whole batch.
\<close>

theorem attach_shared_accountId:
  "(\<forall>i j t. i < length accts \<and> j < length accts \<and> i \<noteq> j
        \<and> Account.accountId (accts ! i) = Account.accountId (accts ! j)
        \<and> t \<in> set txs \<and> Transaction.accountId t = Account.accountId (accts ! i) \<longrightarrow>
        embedded (accts ! i) t \<in> set (txs_of (attach accts txs ! i))
      \<and> embedded (accts ! j) t \<in> set (txs_of (attach accts txs ! j)))
   \<and> (\<forall>i<length accts.
        txs_of (attach accts txs ! i) =
          map (embedded (accts ! i))
            (filter (\<lambda>t. Transaction.accountId t = Account.accountId (accts ! i)) txs))
   \<and> sum_list (map (\<lambda>a. length (txs_of a)) (attach accts txs)) =
       sum_list (map (\<lambda>t. length (filter (\<lambda>a. Account.accountId a = Transaction.accountId t) accts)) txs)
   \<and> (distinct (map Account.accountId accts) \<longrightarrow>
        (\<forall>t\<in>set txs. Transaction.accountId t \<in> set (map Account.accountId accts) \<longrightarrow>
            (\<exists>!i. i < length accts \<and> Account.accountId (accts ! i) = Transaction.accountId t)
          \<and> (\<exists>!i. i < length accts
                   \<and> embedded (accts ! i) t \<in> set (txs_of (attach accts txs ! i))))
      \<and> sum_list (map (\<lambda>a. length (txs_of a)) (attach accts txs)) =
          length (filter (\<lambda>t. Transaction.accountId t \<in> set (map Account.accountId accts)) txs))
   \<and> (\<forall>t\<in>set txs. Transaction.accountId t \<notin> set (map Account.accountId accts) \<longrightarrow>
        (\<forall>i<length accts.
            embedded (accts ! i) t \<notin> set (txs_of (attach accts txs ! i))
          \<and> (\<forall>t'\<in>set (txs_of (attach accts txs ! i)).
                Transaction.accountId t' \<noteq> Transaction.accountId t)))"
proof -
  have shared: "\<forall>i j t. i < length accts \<and> j < length accts \<and> i \<noteq> j
        \<and> Account.accountId (accts ! i) = Account.accountId (accts ! j)
        \<and> t \<in> set txs \<and> Transaction.accountId t = Account.accountId (accts ! i) \<longrightarrow>
        embedded (accts ! i) t \<in> set (txs_of (attach accts txs ! i))
      \<and> embedded (accts ! j) t \<in> set (txs_of (attach accts txs ! j))"
    by (simp add: attach_nth txs_of_attached)
  have exact: "\<forall>i<length accts.
        txs_of (attach accts txs ! i) =
          map (embedded (accts ! i))
            (filter (\<lambda>t. Transaction.accountId t = Account.accountId (accts ! i)) txs)"
    by (simp add: attach_nth txs_of_attached)
  have total: "sum_list (map (\<lambda>a. length (txs_of a)) (attach accts txs)) =
       sum_list (map (\<lambda>t. length (filter (\<lambda>a. Account.accountId a = Transaction.accountId t) accts)) txs)"
    by (simp only: attached_total double_count)
  have part: "(\<forall>t\<in>set txs. Transaction.accountId t \<in> set (map Account.accountId accts) \<longrightarrow>
            (\<exists>!i. i < length accts \<and> Account.accountId (accts ! i) = Transaction.accountId t)
          \<and> (\<exists>!i. i < length accts
                   \<and> embedded (accts ! i) t \<in> set (txs_of (attach accts txs ! i))))
      \<and> sum_list (map (\<lambda>a. length (txs_of a)) (attach accts txs)) =
          length (filter (\<lambda>t. Transaction.accountId t \<in> set (map Account.accountId accts)) txs)"
    if d: "distinct (map Account.accountId accts)"
  proof (intro conjI ballI impI)
    fix t assume t: "t \<in> set txs"
      and m: "Transaction.accountId t \<in> set (map Account.accountId accts)"
    show own: "\<exists>!i. i < length accts \<and> Account.accountId (accts ! i) = Transaction.accountId t"
      using d m by (rule unique_owner)
    have "(i < length accts \<and> embedded (accts ! i) t \<in> set (txs_of (attach accts txs ! i))) =
          (i < length accts \<and> Account.accountId (accts ! i) = Transaction.accountId t)" for i
      using embedded_member [OF t, of i accts] by auto
    then show "\<exists>!i. i < length accts
                   \<and> embedded (accts ! i) t \<in> set (txs_of (attach accts txs ! i))"
      using own by simp
  next
    have "sum_list (map (\<lambda>t. length (filter (\<lambda>a. Account.accountId a = Transaction.accountId t) accts)) txs)
        = sum_list (map (\<lambda>t. if Transaction.accountId t \<in> set (map Account.accountId accts)
                                        then 1 else 0) txs)"
      by (simp only: distinct_count [OF d])
    then show "sum_list (map (\<lambda>a. length (txs_of a)) (attach accts txs)) =
          length (filter (\<lambda>t. Transaction.accountId t \<in> set (map Account.accountId accts)) txs)"
      by (simp only: total sum_list_indicator)
  qed
  have orphan: "\<forall>t\<in>set txs. Transaction.accountId t \<notin> set (map Account.accountId accts) \<longrightarrow>
        (\<forall>i<length accts.
            embedded (accts ! i) t \<notin> set (txs_of (attach accts txs ! i))
          \<and> (\<forall>t'\<in>set (txs_of (attach accts txs ! i)).
                Transaction.accountId t' \<noteq> Transaction.accountId t))"
  proof (intro ballI impI allI)
    fix t i assume t: "t \<in> set txs"
      and o: "Transaction.accountId t \<notin> set (map Account.accountId accts)"
      and i: "i < length accts"
    have ne: "Transaction.accountId t \<noteq> Account.accountId (accts ! i)"
      using o i by (metis length_map nth_map nth_mem)
    have "embedded (accts ! i) t \<notin> set (txs_of (attach accts txs ! i))"
      using embedded_member [OF t i] ne by simp
    moreover have "\<forall>t'\<in>set (txs_of (attach accts txs ! i)).
                Transaction.accountId t' \<noteq> Transaction.accountId t"
      using i ne by (auto simp: attach_nth txs_of_attached embedded_accountId)
    ultimately show "embedded (accts ! i) t \<notin> set (txs_of (attach accts txs ! i))
          \<and> (\<forall>t'\<in>set (txs_of (attach accts txs ! i)).
                Transaction.accountId t' \<noteq> Transaction.accountId t)"
      by blast
  qed
  show ?thesis
    using shared exact total part orphan by blast
qed

text \<open>
  One transaction and two accounts with its accountId: it is embedded twice. With distinct
  accountIds the transaction that matches is embedded once, in the list of its account, and
  the other account has the empty list.
\<close>

theorem attach_shared_accountId_witness:
  "embedded (toAccount (raw_account ''a1'')) (demo_transaction ''t1'' ''a1'')
     \<in> set (txs_of (attach [toAccount (raw_account ''a1''), toAccount (raw_account ''a1'')]
                        [demo_transaction ''t1'' ''a1''] ! 0))
   \<and> embedded (toAccount (raw_account ''a1'')) (demo_transaction ''t1'' ''a1'')
     \<in> set (txs_of (attach [toAccount (raw_account ''a1''), toAccount (raw_account ''a1'')]
                        [demo_transaction ''t1'' ''a1''] ! 1))
   \<and> sum_list (map (\<lambda>a. length (txs_of a))
        (attach [toAccount (raw_account ''a1''), toAccount (raw_account ''a1'')]
           [demo_transaction ''t1'' ''a1''])) = 2
   \<and> sum_list (map (\<lambda>a. length (txs_of a))
        (attach [toAccount (raw_account ''a1''), toAccount (raw_account ''a2'')]
           [demo_transaction ''t1'' ''a1'', demo_transaction ''t2'' ''zz''])) = 1
   \<and> (\<exists>!i. i < 2 \<and> embedded ([toAccount (raw_account ''a1''), toAccount (raw_account ''a2'')] ! i)
                        (demo_transaction ''t1'' ''a1'')
         \<in> set (txs_of (attach [toAccount (raw_account ''a1''), toAccount (raw_account ''a2'')]
                 [demo_transaction ''t1'' ''a1'', demo_transaction ''t2'' ''zz''] ! i)))
   \<and> embedded (toAccount (raw_account ''a2'')) (demo_transaction ''t2'' ''zz'')
       \<notin> set (txs_of (attach [toAccount (raw_account ''a1''), toAccount (raw_account ''a2'')]
                 [demo_transaction ''t1'' ''a1'', demo_transaction ''t2'' ''zz''] ! 1))"
proof -
  let ?dup = "[toAccount (raw_account ''a1''), toAccount (raw_account ''a1'')]"
  let ?one = "[toAccount (raw_account ''a1''), toAccount (raw_account ''a2'')]"
  let ?t = "demo_transaction ''t1'' ''a1''"
  let ?u = "demo_transaction ''t2'' ''zz''"
  have ids: "Account.accountId (toAccount (raw_account ''a1'')) = ''a1''"
      "Account.accountId (toAccount (raw_account ''a2'')) = ''a2''"
      "Transaction.accountId (demo_transaction ''t1'' ''a1'') = ''a1''"
      "Transaction.accountId (demo_transaction ''t2'' ''zz'') = ''zz''"
    by (simp_all add: toAccount_def raw_account_def demo_transaction_def)
  note dup = attach_shared_accountId [of ?dup "[?t]"]
  note one = attach_shared_accountId [of ?one "[?t, ?u]"]
  have both: "embedded (?dup ! 0) ?t \<in> set (txs_of (attach ?dup [?t] ! 0))
      \<and> embedded (?dup ! 1) ?t \<in> set (txs_of (attach ?dup [?t] ! 1))"
    using dup [THEN conjunct1, rule_format, of 0 1 ?t]
    by (simp add: ids)
  have twice: "sum_list (map (\<lambda>a. length (txs_of a)) (attach ?dup [?t])) = 2"
    using dup [THEN conjunct2, THEN conjunct2, THEN conjunct1]
    by (simp add: ids)
  have d: "distinct (map Account.accountId ?one)"
    by (simp add: ids)
  note part = one [THEN conjunct2, THEN conjunct2, THEN conjunct2, THEN conjunct1, rule_format, OF d]
  have once: "sum_list (map (\<lambda>a. length (txs_of a)) (attach ?one [?t, ?u])) = 1"
    using part [THEN conjunct2] by (simp add: ids)
  have owner: "\<exists>!i. i < 2 \<and> embedded (?one ! i) ?t \<in> set (txs_of (attach ?one [?t, ?u] ! i))"
    using part [THEN conjunct1, rule_format, of ?t, THEN conjunct2]
    by (simp add: ids numeral_2_eq_2)
  have orphan: "embedded (toAccount (raw_account ''a2'')) ?u
       \<notin> set (txs_of (attach ?one [?t, ?u] ! 1))"
    using one [THEN conjunct2, THEN conjunct2, THEN conjunct2, THEN conjunct2, rule_format,
               of ?u 1, THEN conjunct1]
    by (simp add: ids)
  show ?thesis using both twice once owner orphan by simp
qed

text \<open>
  C10 as stated has the attached lists partition the transactions of the batch when the
  accountIds are pairwise distinct. Here they are distinct, and the second transaction of the
  batch is in no list: the lists hold one transaction of two.
\<close>

theorem distinct_accountIds_orphan_unattached:
  "distinct (map Account.accountId [toAccount (raw_account ''a1''), toAccount (raw_account ''a2'')])
   \<and> map txs_of (attach [toAccount (raw_account ''a1''), toAccount (raw_account ''a2'')]
                    [demo_transaction ''t1'' ''a1'', demo_transaction ''t2'' ''zz''])
       = [[embedded (toAccount (raw_account ''a1'')) (demo_transaction ''t1'' ''a1'')], []]
   \<and> length (concat (map txs_of (attach [toAccount (raw_account ''a1''), toAccount (raw_account ''a2'')]
                    [demo_transaction ''t1'' ''a1'', demo_transaction ''t2'' ''zz''])))
       \<noteq> length [demo_transaction ''t1'' ''a1'', demo_transaction ''t2'' ''zz'']"
  by (simp add: attach_def txs_of_def embedded_def toAccount_def raw_account_def demo_transaction_def)

section \<open>Exchange server: results\<close>

lemma store_resolve [simp]: "store (resolve s) = store s"
  by (simp add: resolve_def)

lemma store_reject [simp]: "store (reject s) = store s"
  by (simp add: reject_def)

lemma store_get_access_token: "store (get_access_token b s) = store s"
  by (simp add: get_access_token_def split: option.splits)

lemma store_close: "store (close s) = store s"
  by (simp add: close_def)

lemma store_callback_saved:
  "store (exchange_callback err (Some r) s) = (store s)(item_id r \<mapsto> credential r)"
  by (simp add: exchange_callback_def savePublicToken_def credential_def Let_def split: option.splits)

lemma store_callback_no_response:
  "store (exchange_callback err None s) = store s"
  by (simp add: exchange_callback_def savePublicToken_def Let_def split: option.splits)

lemma store_step_other:
  "\<not> exchange_succeeded ev \<Longrightarrow> callback_contract ev \<Longrightarrow> store (step ev s) = store s"
proof (cases ev)
  case (ExchangeCallback err tr)
  assume "\<not> exchange_succeeded ev" "callback_contract ev"
  with ExchangeCallback have "tr = None"
    by (cases err; cases tr) simp_all
  with ExchangeCallback show ?thesis by (simp add: store_callback_no_response)
qed (simp_all add: store_get_access_token store_close)

lemma store_run:
  "\<forall>ev\<in>set evs. callback_contract ev \<Longrightarrow>
   store (run evs s) = foldl (\<lambda>st r. st(item_id r \<mapsto> credential r)) (store s) (successes evs)"
proof (induction evs arbitrary: s)
  case Nil
  then show ?case by simp
next
  case (Cons ev evs)
  have pre: "\<forall>a\<in>set evs. callback_contract a"
    using Cons.prems by simp
  show ?case
  proof (cases "exchange_succeeded ev")
    case True
    then obtain r where ev: "ev = ExchangeCallback None (Some r)"
      by (cases ev rule: exchange_succeeded.cases) simp_all
    have st: "store (step ev s) = (store s)(item_id r \<mapsto> credential r)"
      unfolding ev by (simp only: step.simps store_callback_saved)
    have "store (run (ev # evs) s) =
        foldl (\<lambda>st r. st(item_id r \<mapsto> credential r)) (store (step ev s)) (successes evs)"
      using Cons.IH [OF pre, of "step ev s"] by (simp only: run.simps)
    then show ?thesis
      unfolding ev by (simp only: st successes.simps foldl.simps step.simps store_callback_saved)
  next
    case False
    then have "successes (ev # evs) = successes evs"
      by (cases ev rule: exchange_succeeded.cases) simp_all
    moreover have "store (step ev s) = store s"
      using False Cons.prems by (simp add: store_step_other)
    ultimately show ?thesis using Cons by simp
  qed
qed

lemma successes_none:
  "\<forall>ev\<in>set evs. \<not> exchange_succeeded ev \<Longrightarrow> successes evs = []"
proof (induction evs)
  case Nil
  then show ?case by simp
next
  case (Cons ev evs)
  then show ?case by (cases ev rule: exchange_succeeded.cases) simp_all
qed

text \<open>
  C6. A successful exchange (the callback gets a response and no error) makes the Credential
  Store map the item id to \<^verbatim>\<open>{ id: item_id, integration: plaid, token: access_token }\<close>,
  overwriting what was there. A failed exchange (an error and no response), any post to
  \<^verbatim>\<open>/get_access_token\<close> (token, exit signal or client-reported error) and every other
  event leave the store as it is. Over a whole handshake the store is the old one updated with
  the responses of the successful exchanges, in order; without a successful exchange it is
  unchanged. After a failed exchange \<^verbatim>\<open>savePublicToken\<close> is still called, and throws on
  the absent response before anything is stored.
\<close>

theorem handshake_store:
  "store (step (ExchangeCallback None (Some r)) s) =
     (store s)(item_id r \<mapsto> \<lparr>id' = item_id r, integration = Plaid, token = access_token r\<rparr>)
   \<and> store (step (ExchangeCallback (Some err) None) s) = store s
   \<and> store (step (PostGetAccessToken b) s) = store s
   \<and> (\<not> exchange_succeeded ev \<and> callback_contract ev \<longrightarrow> store (step ev s) = store s)
   \<and> ((\<forall>ev\<in>set evs. callback_contract ev) \<longrightarrow>
        store (run evs s) =
          foldl (\<lambda>st r. st(item_id r \<mapsto> credential r)) (store s) (successes evs))
   \<and> ((\<forall>ev\<in>set evs. callback_contract ev \<and> \<not> exchange_succeeded ev) \<longrightarrow>
        store (run evs s) = store s)"
proof (intro conjI impI)
  show "store (step (ExchangeCallback None (Some r)) s) =
     (store s)(item_id r \<mapsto> \<lparr>id' = item_id r, integration = Plaid, token = access_token r\<rparr>)"
    by (simp add: store_callback_saved credential_def)
  show "store (step (ExchangeCallback (Some err) None) s) = store s"
    by (simp add: store_callback_no_response)
  show "store (step (PostGetAccessToken b) s) = store s"
    by (simp add: store_get_access_token)
next
  assume "\<not> exchange_succeeded ev \<and> callback_contract ev"
  then show "store (step ev s) = store s" by (simp add: store_step_other)
next
  assume "\<forall>ev\<in>set evs. callback_contract ev"
  then show "store (run evs s) =
          foldl (\<lambda>st r. st(item_id r \<mapsto> credential r)) (store s) (successes evs)"
    by (rule store_run)
next
  assume a: "\<forall>ev\<in>set evs. callback_contract ev \<and> \<not> exchange_succeeded ev"
  then have "successes evs = []" by (simp add: successes_none)
  moreover have "store (run evs s) =
          foldl (\<lambda>st r. st(item_id r \<mapsto> credential r)) (store s) (successes evs)"
    using a by (simp add: store_run)
  ultimately show "store (run evs s) = store s" by simp
qed

text \<open>
  The scenario of the spec: \<^verbatim>\<open>tok1\<close> is exchanged for \<^verbatim>\<open>itemX\<close> and \<^verbatim>\<open>accX\<close>;
  an exit signal on a new handshake alters nothing.
\<close>

theorem handshake_store_witness:
  "store (run [PostGetAccessToken (token_body ''tok1''), ExchangeCallback None (Some demo_token_response)]
            (addAccount Map.empty Map.empty []))
     = [''itemX'' \<mapsto> \<lparr>id' = ''itemX'', integration = Plaid, token = ''accX''\<rparr>]
   \<and> store (run [PostGetAccessToken exit_body]
              (addAccount [''itemX'' \<mapsto> \<lparr>id' = ''itemX'', integration = Plaid, token = ''accX''\<rparr>]
                 Map.empty []))
     = [''itemX'' \<mapsto> \<lparr>id' = ''itemX'', integration = Plaid, token = ''accX''\<rparr>]"
proof -
  let ?st = "[''itemX'' \<mapsto> \<lparr>id' = ''itemX'', integration = Plaid, token = ''accX''\<rparr>]"
  let ?evs = "[PostGetAccessToken (token_body ''tok1''), ExchangeCallback None (Some demo_token_response)]"
  have a: "store (run ?evs (addAccount Map.empty Map.empty [])) = ?st"
    using handshake_store [of demo_token_response "addAccount Map.empty Map.empty []" _ _ _ ?evs,
            THEN conjunct2, THEN conjunct2, THEN conjunct2, THEN conjunct2, THEN conjunct1]
    by (simp add: addAccount_def credential_def demo_token_response_def)
  have b: "store (run [PostGetAccessToken exit_body] (addAccount ?st Map.empty [])) = ?st"
    using handshake_store [of demo_token_response "addAccount ?st Map.empty []" _ _ _
              "[PostGetAccessToken exit_body]",
            THEN conjunct2, THEN conjunct2, THEN conjunct2, THEN conjunct2, THEN conjunct2]
    by (simp add: addAccount_def)
  show ?thesis using a b by simp
qed


lemma listening_resolve [simp]: "listening (resolve s) = listening s"
  by (simp add: resolve_def)

lemma listening_reject [simp]: "listening (reject s) = listening s"
  by (simp add: reject_def)

lemma stops_resolve [simp]: "stops (resolve s) = stops s"
  by (simp add: resolve_def)

lemma stops_reject [simp]: "stops (reject s) = stops s"
  by (simp add: reject_def)

lemma close_calls_resolve [simp]: "close_calls (resolve s) = close_calls s"
  by (simp add: resolve_def)

lemma close_calls_reject [simp]: "close_calls (reject s) = close_calls s"
  by (simp add: reject_def)

lemma socket_get_access_token:
  "listening (get_access_token b s) = listening s"
  "stops (get_access_token b s) = stops s"
  "close_calls (get_access_token b s) = close_calls s"
  by (simp_all add: get_access_token_def split: option.splits)

lemma socket_exchange_callback:
  "listening (exchange_callback err tr s) = listening s"
  "stops (exchange_callback err tr s) = stops s"
  "close_calls (exchange_callback err tr s) = close_calls s"
  by (simp_all add: exchange_callback_def savePublicToken_def Let_def split: option.splits)

lemma socket_step:
  "listening (step ev s) = (listening s \<and> ev \<noteq> PostDone)"
  "stops (step ev s) = stops s + (if listening s \<and> ev = PostDone then 1 else 0)"
  "close_calls (step ev s) = close_calls s + (if ev = PostDone then 1 else 0)"
  by (cases ev; simp add: socket_get_access_token socket_exchange_callback close_def)+

lemma socket_run:
  "listening (run evs s) = (listening s \<and> PostDone \<notin> set evs)"
  "stops (run evs s) = stops s + (if listening s \<and> PostDone \<in> set evs then 1 else 0)"
  "close_calls (run evs s) = close_calls s + count_list evs PostDone"
  by (induction evs arbitrary: s; auto simp: socket_step)+

text \<open>
  C7 (as amended). The server of a handshake stops listening when, and only when, a
  \<^verbatim>\<open>/done\<close> post arrives: no other event (successful or failed exchange, cancel,
  client-reported error) closes the socket. It stops listening at most once per handshake,
  exactly once when a done post arrives, however often \<^verbatim>\<open>server.close()\<close> is called.
\<close>

theorem listener_closed_by_done_only:
  "listening (run evs (addAccount st cfg ls)) = (PostDone \<notin> set evs)
   \<and> stops (run evs (addAccount st cfg ls)) = (if PostDone \<in> set evs then 1 else 0)
   \<and> close_calls (run evs (addAccount st cfg ls)) = count_list evs PostDone
   \<and> (ev \<noteq> PostDone \<longrightarrow> listening (step ev s) = listening s \<and> stops (step ev s) = stops s)
   \<and> \<not> listening (step PostDone s)"
  by (simp add: socket_run socket_step addAccount_def close_def)

text \<open>
  A handshake with a successful exchange and two done posts stops listening once; a failed
  exchange alone leaves the server listening.
\<close>

theorem listener_closed_by_done_only_witness:
  "\<not> listening (run [PostGetAccessToken (token_body ''tok1''),
                      ExchangeCallback None (Some demo_token_response), PostDone, PostDone]
                 (addAccount Map.empty Map.empty []))
   \<and> stops (run [PostGetAccessToken (token_body ''tok1''),
                  ExchangeCallback None (Some demo_token_response), PostDone, PostDone]
             (addAccount Map.empty Map.empty [])) = 1
   \<and> listening (step (ExchangeCallback (Some (AuthError ''invalid token'')) None)
                  (addAccount Map.empty Map.empty []))"
  using listener_closed_by_done_only [of
          "[PostGetAccessToken (token_body ''tok1''),
            ExchangeCallback None (Some demo_token_response), PostDone, PostDone]"
          Map.empty Map.empty "[]"
          "ExchangeCallback (Some (AuthError ''invalid token'')) None"
          "addAccount Map.empty Map.empty []"]
  by (simp add: addAccount_def)

text \<open>
  C7 as stated: the socket is closed on every exit path. After a cancel the promise is
  settled and the server still listens.
\<close>

theorem cancel_leaves_listener_open:
  "promise (run [PostGetAccessToken exit_body] (addAccount Map.empty Map.empty [])) = Some (Resolved ())
   \<and> listening (run [PostGetAccessToken exit_body] (addAccount Map.empty Map.empty []))
   \<and> stops (run [PostGetAccessToken exit_body] (addAccount Map.empty Map.empty [])) = 0"
  by (simp add: addAccount_def get_access_token_def exit_body_def resolve_def logInfo_def)

text \<open>
  C5 (as amended). While the promise of \<^verbatim>\<open>addAccount\<close> is pending: a failed exchange
  rejects it, after the error was logged with the message
  \<^verbatim>\<open>Encountered error exchanging Plaid public token.\<close>; an exit signal resolves it, after
  the message \<^verbatim>\<open>Plaid authentication cancelled.\<close> was logged at level info.
\<close>

theorem handshake_outcomes:
  assumes pending: "promise s = None"
  shows "(public_token b = None \<and> exit b \<noteq> None \<longrightarrow>
            promise (step (PostGetAccessToken b) s) = Some (Resolved ())
          \<and> logs (step (PostGetAccessToken b) s) =
              logs s @ [\<lparr>level = Info, message = ''Plaid authentication cancelled.'', data = NoData\<rparr>])
       \<and> promise (step (ExchangeCallback (Some err) tr) s) = Some (Rejected ())
       \<and> (\<exists>rest. logs (step (ExchangeCallback (Some err) tr) s) =
              logs s @ \<lparr>level = Error, message = ''Encountered error exchanging Plaid public token.'',
                        data = ErrorData err\<rparr> # rest)
       \<and> logs (step (ExchangeCallback (Some err) None) s) =
              logs s @ [\<lparr>level = Error, message = ''Encountered error exchanging Plaid public token.'',
                         data = ErrorData err\<rparr>]"
  using pending
  by (auto simp: get_access_token_def exchange_callback_def savePublicToken_def resolve_def
        reject_def logInfo_def logError_def Let_def split: option.splits)

text \<open>
  A fresh handshake is pending: the exit signal resolves it, a failed exchange rejects it.
\<close>

theorem handshake_outcomes_witness:
  "promise (step (PostGetAccessToken exit_body) (addAccount Map.empty Map.empty [])) = Some (Resolved ())
   \<and> promise (step (ExchangeCallback (Some (AuthError ''invalid token'')) None)
                (addAccount Map.empty Map.empty [])) = Some (Rejected ())
   \<and> logs (step (ExchangeCallback (Some (AuthError ''invalid token'')) None)
             (addAccount Map.empty Map.empty [])) =
       [\<lparr>level = Error, message = ''Encountered error exchanging Plaid public token.'',
         data = ErrorData (AuthError ''invalid token'')\<rparr>]"
proof -
  have p: "promise (addAccount Map.empty Map.empty []) = None"
    by (simp add: addAccount_def)
  show ?thesis
    using handshake_outcomes [OF p, of exit_body "AuthError ''invalid token''" None]
    by (simp add: exit_body_def addAccount_def)
qed

text \<open>
  C5 as stated: an exit signal rejects the promise. It resolves it.
\<close>

theorem exit_signal_resolves:
  "exit exit_body \<noteq> None
   \<and> promise (step (PostGetAccessToken exit_body) (addAccount Map.empty Map.empty [])) = Some (Resolved ())
   \<and> promise (step (PostGetAccessToken exit_body) (addAccount Map.empty Map.empty [])) \<noteq> Some (Rejected ())"
  by (simp add: addAccount_def get_access_token_def exit_body_def resolve_def)

end
